theory Spec2Isabelle
  imports Complex_Main
begin

section \<open>Python strings\<close>

text \<open>
  Python \<open>str\<close> values are modelled as \<^typ>\<open>string\<close>. The two registry descriptions
  that contain a character beyond ASCII are written as their UTF-8 bytes; no operation of
  the program inspects a description.
\<close>

definition startswith :: "string \<Rightarrow> string \<Rightarrow> bool" where
  "startswith s p = (take (length p) s = p)"

definition endswith :: "string \<Rightarrow> string \<Rightarrow> bool" where
  "endswith s p = (length p \<le> length s \<and> drop (length s - length p) s = p)"

text \<open>\<open>s.replace(old, new)\<close>: every non-overlapping occurrence, leftmost first. An empty
  \<open>old\<close> matches before every character and at the end, as in Python.\<close>

function str_replace :: "string \<Rightarrow> string \<Rightarrow> string \<Rightarrow> string" where
  "str_replace [] old new = (if old = [] then new else [])"
| "str_replace (c # cs) old new =
     (if old = [] then new @ c # str_replace cs old new
      else if take (length old) (c # cs) = old
        then new @ str_replace (drop (length old) (c # cs)) old new
      else c # str_replace cs old new)"
  by pat_completeness auto
termination
  by (relation "measure (\<lambda>(s, old, new). length s)") (auto simp: neq_Nil_conv)

text \<open>\<open>sep.join(xs)\<close>.\<close>

fun join :: "string \<Rightarrow> string list \<Rightarrow> string" where
  "join sep [] = []"
| "join sep [x] = x"
| "join sep (x # y # ys) = x @ sep @ join sep (y # ys)"

text \<open>\<open>sub in s\<close> for strings.\<close>

fun contains :: "string \<Rightarrow> string \<Rightarrow> bool" where
  "contains [] sub = (sub = [])"
| "contains (c # cs) sub = (take (length sub) (c # cs) = sub \<or> contains cs sub)"

section \<open>Python values and exceptions\<close>

datatype builtin = BAbs | BMax | BMin

text \<open>
  The values a dataset may hold and a formula may yield: \<open>int\<close>, \<open>float\<close>, \<open>str\<close>, and
  the three functions bound in the evaluation scope. A \<open>float\<close> is idealised as a real
  number: rounding, infinities and NaN are outside the model.
\<close>

datatype pyval = PyInt int | PyFloat real | PyStr string | PyFn builtin

fun is_str :: "pyval \<Rightarrow> bool" where
  "is_str (PyStr s) = True"
| "is_str v = False"

fun is_number :: "pyval \<Rightarrow> bool" where
  "is_number (PyInt n) = True"
| "is_number (PyFloat x) = True"
| "is_number v = False"

datatype exn_kind =
  ValueError | KeyError | NameError | TypeError | ZeroDivisionError | SyntaxError
  | Unmodelled

text \<open>
  An exception is its class and its message, \<open>str(e)\<close>. The class \<open>Unmodelled\<close> is
  not a Python exception: the model of the expression evaluator below answers with it
  where an expression or a value leaves the arithmetic fragment it covers, and nothing
  is stated about what Python does there.
\<close>

datatype exn = Exn exn_kind string

fun str_of_exn :: "exn \<Rightarrow> string" where
  "str_of_exn (Exn k msg) = msg"

type_synonym dataset = "string \<rightharpoonup> pyval"

text \<open>\<open>d[k]\<close> on a dictionary literal kept as an association list.\<close>

definition getitem :: "(string \<times> 'v) list \<Rightarrow> string \<Rightarrow> exn + 'v" where
  "getitem d k = (case map_of d k of None \<Rightarrow> Inl (Exn KeyError k) | Some v \<Rightarrow> Inr v)"

section \<open>The metric registry and the alias table\<close>

record metric_spec =
  inputs :: "string list"
  formula :: string
  desc :: string

definition METRICS :: "(string \<times> metric_spec) list" where
  "METRICS = [
    (''revenue'', \<lparr>inputs = [''is.NetRevenue''],
     formula = ''is.NetRevenue'',
     desc = ''Total top-line sales''\<rparr>),
    (''cogs'', \<lparr>inputs = [''is.CostOfRevenue''],
     formula = ''is.CostOfRevenue'',
     desc = ''Cost of goods / services''\<rparr>),
    (''gross_profit'', \<lparr>inputs = [''revenue'', ''cogs''],
     formula = ''revenue - cogs'',
     desc = ''Revenue minus COGS''\<rparr>),
    (''rnd'', \<lparr>inputs = [''is.RD''],
     formula = ''is.RD'',
     desc = ''Research & development exp.''\<rparr>),
    (''sga'', \<lparr>inputs = [''is.SG&A''],
     formula = ''is.SG&A'',
     desc = ''Selling, general & admin''\<rparr>),
    (''operating_income'', \<lparr>inputs = [''is.OperatingIncome''],
     formula = ''is.OperatingIncome'',
     desc = ''EBIT; income from operations''\<rparr>),
    (''ebit'', \<lparr>inputs = [''operating_income''],
     formula = ''operating_income'',
     desc = ''Synonym for operating income''\<rparr>),
    (''interest_expense'', \<lparr>inputs = [''is.InterestExpense''],
     formula = ''is.InterestExpense'',
     desc = ''Net interest cost''\<rparr>),
    (''ebt'', \<lparr>inputs = [''is.IncomeBeforeTax''],
     formula = ''is.IncomeBeforeTax'',
     desc = ''Earnings before tax''\<rparr>),
    (''tax_expense'', \<lparr>inputs = [''is.IncomeTax''],
     formula = ''is.IncomeTax'',
     desc = ''Provision for income taxes''\<rparr>),
    (''net_income'', \<lparr>inputs = [''is.NetIncome''],
     formula = ''is.NetIncome'',
     desc = ''Bottom-line profit''\<rparr>),
    (''eps_basic'', \<lparr>inputs = [''is.EPSBasic''],
     formula = ''is.EPSBasic'',
     desc = ''Earnings per share, basic''\<rparr>),
    (''eps_diluted'', \<lparr>inputs = [''is.EPSDiluted''],
     formula = ''is.EPSDiluted'',
     desc = ''Earnings per share, diluted''\<rparr>),
    (''cash'', \<lparr>inputs = [''bs.CashAndEquivalents''],
     formula = ''bs.CashAndEquivalents'',
     desc = ''Cash & cash equivalents''\<rparr>),
    (''short_term_investments'', \<lparr>inputs = [''bs.ShortTermInvestments''],
     formula = ''bs.ShortTermInvestments'',
     desc = ''Marketable securities''\<rparr>),
    (''accounts_receivable'', \<lparr>inputs = [''bs.AccountsReceivable''],
     formula = ''bs.AccountsReceivable'',
     desc = ''Trade receivables''\<rparr>),
    (''inventory'', \<lparr>inputs = [''bs.Inventory''],
     formula = ''bs.Inventory'',
     desc = ''Inventories''\<rparr>),
    (''current_assets'', \<lparr>inputs = [''bs.TotalCurrentAssets''],
     formula = ''bs.TotalCurrentAssets'',
     desc = ''Total current assets''\<rparr>),
    (''pp&e'', \<lparr>inputs = [''bs.PP&E''],
     formula = ''bs.PP&E'',
     desc = ''Property, plant & equipment''\<rparr>),
    (''goodwill'', \<lparr>inputs = [''bs.Goodwill''],
     formula = ''bs.Goodwill'',
     desc = ''Goodwill intangible''\<rparr>),
    (''total_assets'', \<lparr>inputs = [''bs.TotalAssets''],
     formula = ''bs.TotalAssets'',
     desc = ''Sum of assets''\<rparr>),
    (''accounts_payable'', \<lparr>inputs = [''bs.AccountsPayable''],
     formula = ''bs.AccountsPayable'',
     desc = ''Trade accounts payable''\<rparr>),
    (''deferred_revenue'', \<lparr>inputs = [''bs.DeferredRevenue''],
     formula = ''bs.DeferredRevenue'',
     desc = ''Contract liabilities''\<rparr>),
    (''current_liabilities'', \<lparr>inputs = [''bs.TotalCurrentLiabilities''],
     formula = ''bs.TotalCurrentLiabilities'',
     desc = ''Due within 12 mo.''\<rparr>),
    (''long_term_debt'', \<lparr>inputs = [''bs.LongTermDebt''],
     formula = ''bs.LongTermDebt'',
     desc = ''Borrowings >1 year''\<rparr>),
    (''total_liabilities'', \<lparr>inputs = [''bs.TotalLiabilities''],
     formula = ''bs.TotalLiabilities'',
     desc = ''All liabilities''\<rparr>),
    (''shareholders_equity'', \<lparr>inputs = [''bs.TotalEquity''],
     formula = ''bs.TotalEquity'',
     desc = ''Book value of equity''\<rparr>),
    (''cfo'', \<lparr>inputs = [''cf.CashFromOperations''],
     formula = ''cf.CashFromOperations'',
     desc = ''Net cash from ops''\<rparr>),
    (''capex'', \<lparr>inputs = [''cf.CapEx''],
     formula = ''cf.CapEx'',
     desc = ''Capital expenditures''\<rparr>),
    (''free_cash_flow'', \<lparr>inputs = [''cfo'', ''capex''],
     formula = ''cfo - capex'',
     desc = ''CFO minus capex''\<rparr>),
    (''cff'', \<lparr>inputs = [''cf.CashFromFinancing''],
     formula = ''cf.CashFromFinancing'',
     desc = ''Cash from financing''\<rparr>),
    (''cfi'', \<lparr>inputs = [''cf.CashFromInvesting''],
     formula = ''cf.CashFromInvesting'',
     desc = ''Cash from investing''\<rparr>),
    (''gross_margin_pct'', \<lparr>inputs = [''gross_profit'', ''revenue''],
     formula = ''gross_profit / revenue'',
     desc = ''Gross profit / revenue''\<rparr>),
    (''operating_margin_pct'', \<lparr>inputs = [''operating_income'', ''revenue''],
     formula = ''operating_income / revenue'',
     desc = ''EBIT margin''\<rparr>),
    (''net_margin_pct'', \<lparr>inputs = [''net_income'', ''revenue''],
     formula = ''net_income / revenue'',
     desc = ''Net profit margin''\<rparr>),
    (''rd_pct'', \<lparr>inputs = [''rnd'', ''revenue''],
     formula = ''rnd / revenue'',
     desc = ''R&D as % of sales''\<rparr>),
    (''sga_pct'', \<lparr>inputs = [''sga'', ''revenue''],
     formula = ''sga / revenue'',
     desc = ''SG&A as % of sales''\<rparr>),
    (''fcf_margin_pct'', \<lparr>inputs = [''free_cash_flow'', ''revenue''],
     formula = ''free_cash_flow / revenue'',
     desc = ''FCF margin''\<rparr>),
    (''ebitda'', \<lparr>inputs = [''operating_income'', ''is.D&A''],
     formula = ''operating_income + is.D&A'',
     desc = ''EBIT + depreciation & amort.''\<rparr>),
    (''ebitda_margin_pct'', \<lparr>inputs = [''ebitda'', ''revenue''],
     formula = ''ebitda / revenue'',
     desc = ''EBITDA margin''\<rparr>),
    (''eps_growth_pct'', \<lparr>inputs = [''eps_diluted_t'', ''eps_diluted_t-1''],
     formula = ''(eps_diluted_t/eps_diluted_t-1) - 1'',
     desc = ''YoY EPS growth''\<rparr>),
    (''revenue_growth_pct'', \<lparr>inputs = [''revenue_t'', ''revenue_t-1''],
     formula = ''(revenue_t/revenue_t-1) - 1'',
     desc = ''YoY top-line growth''\<rparr>),
    (''shares_out'', \<lparr>inputs = [''is.WeightedAvgSharesDiluted''],
     formula = ''is.WeightedAvgSharesDiluted'',
     desc = ''Diluted share count''\<rparr>),
    (''market_cap'', \<lparr>inputs = [''price'', ''shares_out''],
     formula = ''price * shares_out'',
     desc = (''Price '' @ [CHR 0xC3, CHR 0x97] @ '' diluted shares'')\<rparr>),
    (''enterprise_value'', \<lparr>inputs = [''market_cap'', ''total_liabilities'', ''cash''],
     formula = ''market_cap + total_liabilities - cash'',
     desc = ''EV = Mcap + debt - cash''\<rparr>),
    (''ev_ebitda'', \<lparr>inputs = [''enterprise_value'', ''ebitda''],
     formula = ''enterprise_value / ebitda'',
     desc = ''EV / EBITDA multiple''\<rparr>),
    (''price_sales'', \<lparr>inputs = [''market_cap'', ''revenue''],
     formula = ''market_cap / revenue'',
     desc = ''P/S ratio''\<rparr>),
    (''price_earnings'', \<lparr>inputs = [''price'', ''eps_diluted''],
     formula = ''price / eps_diluted'',
     desc = ''Trailing P/E''\<rparr>),
    (''dividend_yield_pct'', \<lparr>inputs = [''dividend_per_share'', ''price''],
     formula = ''dividend_per_share / price'',
     desc = ''Dividends / price''\<rparr>),
    (''roic_pct'', \<lparr>inputs = [''nopat'', ''invested_capital''],
     formula = ''nopat / invested_capital'',
     desc = ''Return on invested capital''\<rparr>),
    (''roe_pct'', \<lparr>inputs = [''net_income'', ''shareholders_equity''],
     formula = ''net_income / shareholders_equity'',
     desc = ''Return on equity''\<rparr>),
    (''roa_pct'', \<lparr>inputs = [''net_income'', ''total_assets''],
     formula = ''net_income / total_assets'',
     desc = ''Return on assets''\<rparr>),
    (''current_ratio'', \<lparr>inputs = [''current_assets'', ''current_liabilities''],
     formula = ''current_assets / current_liabilities'',
     desc = ''Liquidity ratio''\<rparr>),
    (''quick_ratio'', \<lparr>inputs = [''cash'', ''short_term_investments'', ''accounts_receivable'', ''current_liabilities''],
     formula = ''(cash + short_term_investments + accounts_receivable) / current_liabilities'',
     desc = ''Acid-test ratio''\<rparr>),
    (''debt_equity'', \<lparr>inputs = [''long_term_debt'', ''shareholders_equity''],
     formula = ''long_term_debt / shareholders_equity'',
     desc = ''Leverage ratio''\<rparr>),
    (''debt_ebitda'', \<lparr>inputs = [''long_term_debt'', ''ebitda''],
     formula = ''long_term_debt / ebitda'',
     desc = ''Debt / EBITDA''\<rparr>),
    (''interest_coverage'', \<lparr>inputs = [''ebit'', ''interest_expense''],
     formula = ''ebit / abs(interest_expense)'',
     desc = ''EBIT / Interest''\<rparr>),
    (''ocf_conversion_pct'', \<lparr>inputs = [''cfo'', ''net_income''],
     formula = ''cfo / net_income'',
     desc = ''Cash conversion (ops)''\<rparr>),
    (''capex_sales_pct'', \<lparr>inputs = [''capex'', ''revenue''],
     formula = ''capex / revenue'',
     desc = ''Capex intensity''\<rparr>),
    (''dividend_payout_pct'', \<lparr>inputs = [''dividend_per_share'', ''eps_diluted''],
     formula = ''dividend_per_share / eps_diluted'',
     desc = ''Payout ratio''\<rparr>),
    (''ev_sales'', \<lparr>inputs = [''enterprise_value'', ''revenue''],
     formula = ''enterprise_value / revenue'',
     desc = ''EV / Sales''\<rparr>),
    (''ev_ebit'', \<lparr>inputs = [''enterprise_value'', ''ebit''],
     formula = ''enterprise_value / ebit'',
     desc = ''EV / EBIT''\<rparr>),
    (''fcf_yield_pct'', \<lparr>inputs = [''free_cash_flow'', ''market_cap''],
     formula = ''free_cash_flow / market_cap'',
     desc = ''FCF / market cap''\<rparr>),
    (''rd_growth_pct'', \<lparr>inputs = [''rnd_t'', ''rnd_t-1''],
     formula = ''(rnd_t/rnd_t-1) - 1'',
     desc = ''YoY R&D growth''\<rparr>),
    (''capex_growth_pct'', \<lparr>inputs = [''capex_t'', ''capex_t-1''],
     formula = ''(capex_t/capex_t-1) - 1'',
     desc = ''YoY CapEx growth''\<rparr>),
    (''employees'', \<lparr>inputs = [''10K.Employees''],
     formula = ''10K.Employees'',
     desc = ''Full-time headcount''\<rparr>),
    (''revenue_per_employee'', \<lparr>inputs = [''revenue'', ''employees''],
     formula = ''revenue / employees'',
     desc = ''Efficiency metric''\<rparr>),
    (''segment_revenue'', \<lparr>inputs = [''segment_df''],
     formula = (''lookup(segment_df, '' @ [CHR 0x27] @ ''SegmentName'' @ [CHR 0x27] @ '')''),
     desc = ''Revenue for a specific segment''\<rparr>),
    (''geo_revenue'', \<lparr>inputs = [''geo_df''],
     formula = (''lookup(geo_df, '' @ [CHR 0x27] @ ''Region'' @ [CHR 0x27] @ '')''),
     desc = ''Revenue for a specific region''\<rparr>),
    (''total_return_1y_pct'', \<lparr>inputs = [''price_t'', ''price_t-252''],
     formula = ''(price_t/price_t-252) - 1'',
     desc = ''1-year price return''\<rparr>),
    (''beta_2y'', \<lparr>inputs = [''daily_returns'', ''index_returns''],
     formula = ''regression_beta(daily_returns, index_returns)'',
     desc = ''2-year beta vs S&P 500''\<rparr>),
    (''volatility_30d'', \<lparr>inputs = [''daily_returns_30d''],
     formula = ''std(daily_returns_30d) * sqrt(252)'',
     desc = ''30-day annualized vol''\<rparr>),
    (''carbon_intensity'', \<lparr>inputs = [''ghg_scope1'', ''revenue''],
     formula = ''ghg_scope1 / revenue'',
     desc = (''tCO'' @ [CHR 0xE2, CHR 0x82, CHR 0x82] @ ''e / $ revenue'')\<rparr>),
    (''board_independence_pct'', \<lparr>inputs = [''board_independent'', ''board_total''],
     formula = ''board_independent / board_total'',
     desc = ''Governance metric''\<rparr>),
    (''preferred_dividends'', \<lparr>inputs = [''is.PreferredDividends''],
     formula = ''is.PreferredDividends'',
     desc = ''Preferred payouts''\<rparr>),
    (''tangible_book_value'', \<lparr>inputs = [''shareholders_equity'', ''goodwill''],
     formula = ''shareholders_equity - goodwill'',
     desc = ''Equity less intangibles''\<rparr>),
    (''price_book'', \<lparr>inputs = [''price'', ''tangible_book_value_per_share''],
     formula = ''price / tangible_book_value_per_share'',
     desc = ''P/B on tangible BV''\<rparr>),
    (''working_capital'', \<lparr>inputs = [''current_assets'', ''current_liabilities''],
     formula = ''current_assets - current_liabilities'',
     desc = ''Operational liquidity''\<rparr>),
    (''days_sales_outstanding'', \<lparr>inputs = [''accounts_receivable'', ''revenue''],
     formula = ''(accounts_receivable / revenue) * 365'',
     desc = ''Receivables / sales days''\<rparr>),
    (''days_inventory'', \<lparr>inputs = [''inventory'', ''cogs''],
     formula = ''(inventory / cogs) * 365'',
     desc = ''Inventory days''\<rparr>),
    (''days_payables'', \<lparr>inputs = [''accounts_payable'', ''cogs''],
     formula = ''(accounts_payable / cogs) * 365'',
     desc = ''Payables days''\<rparr>),
    (''cash_conversion_cycle'', \<lparr>inputs = [''days_inventory'', ''days_sales_outstanding'', ''days_payables''],
     formula = ''days_inventory + days_sales_outstanding - days_payables'',
     desc = ''Supply-chain cash cycle''\<rparr>),
    (''interest_bearing_debt'', \<lparr>inputs = [''long_term_debt'', ''bs.ShortTermDebt''],
     formula = ''long_term_debt + bs.ShortTermDebt'',
     desc = ''All debt obligations''\<rparr>),
    (''ltm_revenue'', \<lparr>inputs = [''revenue_t'', ''revenue_t-1'', ''revenue_t-2'', ''revenue_t-3''],
     formula = ''sum(last_4_quarters)'',
     desc = ''Trailing-12-month revenue''\<rparr>)
  ]"

definition METRIC_ALIASES :: "(string \<times> string) list" where
  "METRIC_ALIASES = [
    (''sales'', ''revenue''),
    (''top_line'', ''revenue''),
    (''profits'', ''net_income''),
    (''earnings'', ''net_income''),
    (''bottom_line'', ''net_income''),
    (''r&d'', ''rnd''),
    (''research_and_development'', ''rnd''),
    (''operating_profit'', ''operating_income''),
    (''ebit_margin'', ''operating_margin_pct''),
    (''profit_margin'', ''net_margin_pct''),
    (''net_profit_margin'', ''net_margin_pct''),
    (''gross_margin'', ''gross_margin_pct''),
    (''fcf'', ''free_cash_flow''),
    (''operating_cash_flow'', ''cfo''),
    (''ppe'', ''pp&e''),
    (''property_plant_equipment'', ''pp&e''),
    (''debt'', ''long_term_debt''),
    (''equity'', ''shareholders_equity''),
    (''book_value'', ''shareholders_equity''),
    (''assets'', ''total_assets''),
    (''liabilities'', ''total_liabilities''),
    (''ar'', ''accounts_receivable''),
    (''ap'', ''accounts_payable''),
    (''pe_ratio'', ''price_earnings''),
    (''pe'', ''price_earnings''),
    (''ps'', ''price_sales''),
    (''ps_ratio'', ''price_sales'')
  ]"

section \<open>The expression evaluator\<close>

text \<open>
  \<open>calc\<close> hands the rewritten formula to Python's \<open>eval\<close> with the globals
  \<open>{"__builtins__": None}\<close> and a dictionary of locals. \<open>eval\<close> belongs to the
  language, not to this program, so \<open>calc\<close> and \<open>calculate_metric\<close> below take the
  evaluator as a parameter, and everything proved for an arbitrary evaluator holds for
  Python's. For runs on concrete formulas, \<open>py_eval\<close> models \<open>eval\<close> on the arithmetic
  fragment the registry is written in: names, decimal integer literals, unary and binary
  \<open>+ - * /\<close>, parentheses and calls, and attribute access on numbers.
\<close>

type_synonym evaluator = "string \<Rightarrow> (string \<rightharpoonup> pyval) \<Rightarrow> exn + pyval"

subsection \<open>Tokens\<close>

datatype token =
  TName string | TInt nat | TPlus | TMinus | TStar | TSlash | TLParen | TRParen | TComma
  | TDot

text \<open>Character classes by ASCII code: the digits are 48 to 57, the capital letters 65 to
  90, the small letters 97 to 122, and the underscore is 95.\<close>

definition is_digit :: "char \<Rightarrow> bool" where
  "is_digit c = (48 \<le> (of_char c :: nat) \<and> (of_char c :: nat) \<le> 57)"

definition is_name_start :: "char \<Rightarrow> bool" where
  "is_name_start c =
     ((97 \<le> (of_char c :: nat) \<and> (of_char c :: nat) \<le> 122)
      \<or> (65 \<le> (of_char c :: nat) \<and> (of_char c :: nat) \<le> 90)
      \<or> (of_char c :: nat) = 95)"

definition is_name_char :: "char \<Rightarrow> bool" where
  "is_name_char c = (is_name_start c \<or> is_digit c)"

definition py_keywords :: "string list" where
  "py_keywords = [''False'', ''None'', ''True'', ''and'', ''as'', ''assert'', ''async'',
     ''await'', ''break'', ''class'', ''continue'', ''def'', ''del'', ''elif'', ''else'',
     ''except'', ''finally'', ''for'', ''from'', ''global'', ''if'', ''import'', ''in'',
     ''is'', ''lambda'', ''nonlocal'', ''not'', ''or'', ''pass'', ''raise'', ''return'',
     ''try'', ''while'', ''with'', ''yield'', ''__debug__'', ''__builtins__'']"

fun digits_value :: "nat \<Rightarrow> string \<Rightarrow> nat" where
  "digits_value acc [] = acc"
| "digits_value acc (c # cs) = digits_value (10 * acc + (of_char c - of_char CHR ''0'')) cs"

definition unmodelled :: "exn + 'a" where
  "unmodelled = Inl (Exn Unmodelled ''outside the modelled fragment'')"

definition syntax_error :: "string \<Rightarrow> exn + 'a" where
  "syntax_error msg = Inl (Exn SyntaxError (msg @ '' (<string>, line 1)''))"

fun cons_token :: "token \<Rightarrow> exn + token list \<Rightarrow> exn + token list" where
  "cons_token t (Inl e) = Inl e"
| "cons_token t (Inr ts) = Inr (t # ts)"

text \<open>
  A run of digits directly followed by a letter or an underscore is no token of Python:
  \<open>10K_Employees\<close> is a syntax error. Where the letter could continue a literal of
  another form or start a keyword (\<open>1e5\<close>, \<open>1j\<close>, \<open>0x1f\<close>, \<open>1_000\<close>, \<open>1if\<close>), and for
  literals with a leading zero or a fraction, the model does not decide.
\<close>

definition literal_suffix_chars :: string where
  "literal_suffix_chars = ''eEjJlLxXoObB_afin.''"

function tokenize :: "string \<Rightarrow> exn + token list" where
  "tokenize [] = Inr []"
| "tokenize (c # cs) =
     (if c = CHR '' '' \<or> c = CHR 0x09 then tokenize cs
      else if is_name_start c then
        (if c # takeWhile is_name_char cs \<in> set py_keywords then unmodelled
         else cons_token (TName (c # takeWhile is_name_char cs))
                (tokenize (dropWhile is_name_char cs)))
      else if is_digit c then
        (case dropWhile is_digit cs of
           [] \<Rightarrow> (if c = CHR ''0'' \<and> takeWhile is_digit cs \<noteq> [] then unmodelled
                  else Inr [TInt (digits_value 0 (c # takeWhile is_digit cs))])
         | r # rs \<Rightarrow>
             (if r \<in> set literal_suffix_chars then unmodelled
              else if is_name_char r then syntax_error ''invalid decimal literal''
              else if c = CHR ''0'' \<and> takeWhile is_digit cs \<noteq> [] then unmodelled
              else cons_token (TInt (digits_value 0 (c # takeWhile is_digit cs)))
                     (tokenize (r # rs))))
      else if c = CHR ''+'' then cons_token TPlus (tokenize cs)
      else if c = CHR ''-'' then cons_token TMinus (tokenize cs)
      else if c = CHR ''*'' then
        (if take 1 cs = ''*'' then unmodelled else cons_token TStar (tokenize cs))
      else if c = CHR ''/'' then
        (if take 1 cs = ''/'' then unmodelled else cons_token TSlash (tokenize cs))
      else if c = CHR ''('' then cons_token TLParen (tokenize cs)
      else if c = CHR '')'' then cons_token TRParen (tokenize cs)
      else if c = CHR '','' then cons_token TComma (tokenize cs)
      else if c = CHR ''.'' then
        (if cs \<noteq> [] \<and> (is_digit (hd cs) \<or> hd cs = CHR ''.'') then unmodelled
         else cons_token TDot (tokenize cs))
      else unmodelled)"
  by pat_completeness auto
termination
proof (relation "measure length")
  show "wf (measure length)" by simp
next
  fix c cs x21 x22
  assume "dropWhile is_digit cs = x21 # x22"
  then have "length (x21 # x22) \<le> length cs"
    by (metis length_dropWhile_le)
  then show "(x21 # x22, c # cs) \<in> measure length" by simp
qed (auto simp: length_dropWhile_le less_Suc_eq_le)

subsection \<open>Syntax\<close>

datatype binop = Add | Sub | Mult | Div

datatype unop = UAdd | USub

datatype pyexpr =
  Name string
| Num nat
| UnaryOp unop pyexpr
| BinOp pyexpr binop pyexpr
| Call pyexpr "pyexpr list"
| Attribute pyexpr string

text \<open>
  A recursive-descent parser for Python's grammar restricted to these tokens:
  \<open>expr := term (('+' | '-') term)*\<close>, \<open>term := factor (('*' | '/') factor)*\<close>,
  \<open>factor := ('+' | '-') factor | primary\<close>,
  \<open>primary := (NAME | NUMBER | '(' expr ')') ('(' args ')' | '.' NAME)*\<close>.
  Each function returns the tree and the tokens left over. The first argument bounds the
  depth of the descent; \<open>parse\<close> supplies a bound that grows with the number of tokens.
  Tuples and starred expressions are left undecided.
\<close>

function parse_expr :: "nat \<Rightarrow> token list \<Rightarrow> exn + (pyexpr \<times> token list)"
  and parse_expr_rest :: "nat \<Rightarrow> pyexpr \<Rightarrow> token list \<Rightarrow> exn + (pyexpr \<times> token list)"
  and parse_term :: "nat \<Rightarrow> token list \<Rightarrow> exn + (pyexpr \<times> token list)"
  and parse_term_rest :: "nat \<Rightarrow> pyexpr \<Rightarrow> token list \<Rightarrow> exn + (pyexpr \<times> token list)"
  and parse_factor :: "nat \<Rightarrow> token list \<Rightarrow> exn + (pyexpr \<times> token list)"
  and parse_primary :: "nat \<Rightarrow> token list \<Rightarrow> exn + (pyexpr \<times> token list)"
  and parse_trailers :: "nat \<Rightarrow> pyexpr \<Rightarrow> token list \<Rightarrow> exn + (pyexpr \<times> token list)"
  and parse_args :: "nat \<Rightarrow> token list \<Rightarrow> exn + (pyexpr list \<times> token list)"
where
  "parse_expr 0 ts = unmodelled"
| "parse_expr (Suc n) ts =
     (case parse_term n ts of
        Inl e \<Rightarrow> Inl e
      | Inr (l, rest) \<Rightarrow> parse_expr_rest n l rest)"
| "parse_expr_rest 0 l ts = unmodelled"
| "parse_expr_rest (Suc n) l ts =
     (if take 1 ts = [TPlus] \<or> take 1 ts = [TMinus] then
        (case parse_term n (tl ts) of
           Inl e \<Rightarrow> Inl e
         | Inr (r, rest) \<Rightarrow>
             parse_expr_rest n (BinOp l (if take 1 ts = [TPlus] then Add else Sub) r) rest)
      else Inr (l, ts))"
| "parse_term 0 ts = unmodelled"
| "parse_term (Suc n) ts =
     (case parse_factor n ts of
        Inl e \<Rightarrow> Inl e
      | Inr (l, rest) \<Rightarrow> parse_term_rest n l rest)"
| "parse_term_rest 0 l ts = unmodelled"
| "parse_term_rest (Suc n) l ts =
     (if take 1 ts = [TStar] \<or> take 1 ts = [TSlash] then
        (case parse_factor n (tl ts) of
           Inl e \<Rightarrow> Inl e
         | Inr (r, rest) \<Rightarrow>
             parse_term_rest n (BinOp l (if take 1 ts = [TStar] then Mult else Div) r) rest)
      else Inr (l, ts))"
| "parse_factor 0 ts = unmodelled"
| "parse_factor (Suc n) ts =
     (if take 1 ts = [TPlus] \<or> take 1 ts = [TMinus] then
        (case parse_factor n (tl ts) of
           Inl e \<Rightarrow> Inl e
         | Inr (e, rest) \<Rightarrow>
             Inr (UnaryOp (if take 1 ts = [TPlus] then UAdd else USub) e, rest))
      else parse_primary n ts)"
| "parse_primary 0 ts = unmodelled"
| "parse_primary (Suc n) ts =
     (case ts of
        TName x # rest \<Rightarrow> parse_trailers n (Name x) rest
      | TInt k # rest \<Rightarrow> parse_trailers n (Num k) rest
      | TLParen # rest \<Rightarrow>
          (if take 1 rest = [TRParen] then unmodelled
           else (case parse_expr n rest of
               Inl e \<Rightarrow> Inl e
             | Inr (e, rest') \<Rightarrow>
                 (if take 1 rest' = [TRParen] then parse_trailers n e (tl rest')
                  else if take 1 rest' = [TComma] then unmodelled
                  else syntax_error ''invalid syntax'')))
      | TStar # rest \<Rightarrow> unmodelled
      | _ \<Rightarrow> syntax_error ''invalid syntax'')"
| "parse_trailers 0 e ts = unmodelled"
| "parse_trailers (Suc n) e ts =
     (if take 1 ts = [TLParen] then
        (case parse_args n (tl ts) of
           Inl err \<Rightarrow> Inl err
         | Inr (args, rest) \<Rightarrow> parse_trailers n (Call e args) rest)
      else if take 1 ts = [TDot] then
        (case tl ts of
           TName x # rest \<Rightarrow> parse_trailers n (Attribute e x) rest
         | _ \<Rightarrow> syntax_error ''invalid syntax'')
      else Inr (e, ts))"
| "parse_args 0 ts = unmodelled"
| "parse_args (Suc n) ts =
     (if take 1 ts = [TRParen] then Inr ([], tl ts)
      else if take 1 ts = [TStar] then unmodelled
      else (case parse_expr n ts of
          Inl e \<Rightarrow> Inl e
        | Inr (a, rest) \<Rightarrow>
            (if take 1 rest = [TComma] then
               (case parse_args n (tl rest) of
                  Inl e \<Rightarrow> Inl e
                | Inr (as, rest') \<Rightarrow> Inr (a # as, rest'))
             else if take 1 rest = [TRParen] then Inr ([a], tl rest)
             else syntax_error ''invalid syntax'')))"
  by pat_completeness auto
termination
  by (relation "measure (\<lambda>x. case x of
        Inl (Inl (Inl (n, ts))) \<Rightarrow> n
      | Inl (Inl (Inr (n, l, ts))) \<Rightarrow> n
      | Inl (Inr (Inl (n, ts))) \<Rightarrow> n
      | Inl (Inr (Inr (n, l, ts))) \<Rightarrow> n
      | Inr (Inl (Inl (n, ts))) \<Rightarrow> n
      | Inr (Inl (Inr (n, ts))) \<Rightarrow> n
      | Inr (Inr (Inl (n, l, ts))) \<Rightarrow> n
      | Inr (Inr (Inr (n, ts))) \<Rightarrow> n)") auto

fun parse_depth :: "token list \<Rightarrow> nat" where
  "parse_depth [] = Suc (Suc (Suc (Suc (Suc (Suc 0)))))"
| "parse_depth (t # ts) = Suc (Suc (Suc (parse_depth ts)))"

definition parse :: "token list \<Rightarrow> exn + pyexpr" where
  "parse ts =
     (case parse_expr (parse_depth ts) ts of
        Inl e \<Rightarrow> Inl e
      | Inr (e, rest) \<Rightarrow>
          (if rest = [] then Inr e
           else if take 1 rest = [TComma] then unmodelled
           else syntax_error ''invalid syntax''))"

subsection \<open>Evaluation\<close>

fun type_name :: "pyval \<Rightarrow> string" where
  "type_name (PyInt n) = ''int''"
| "type_name (PyFloat x) = ''float''"
| "type_name (PyStr s) = ''str''"
| "type_name (PyFn f) = ''builtin_function_or_method''"

fun num_val :: "pyval \<Rightarrow> real" where
  "num_val (PyInt n) = of_int n"
| "num_val (PyFloat x) = x"
| "num_val v = 0"

definition squote :: "string \<Rightarrow> string" where
  "squote s = [CHR 0x27] @ s @ [CHR 0x27]"

fun show_nat :: "nat \<Rightarrow> string" where
  "show_nat n =
     (if n < 10 then [''0123456789'' ! n]
      else show_nat (n div 10) @ [''0123456789'' ! (n mod 10)])"

declare show_nat.simps [simp del]

definition type_error :: "string \<Rightarrow> exn + 'a" where
  "type_error msg = Inl (Exn TypeError msg)"

fun op_symbol :: "binop \<Rightarrow> string" where
  "op_symbol Add = ''+''"
| "op_symbol Sub = ''-''"
| "op_symbol Mult = ''*''"
| "op_symbol Div = ''/''"

text \<open>
  Arithmetic on numbers: \<open>int\<close> with \<open>int\<close> stays \<open>int\<close> under \<open>+ - *\<close>, a \<open>float\<close>
  operand makes the result a \<open>float\<close>, and \<open>/\<close> is true division, which raises on a
  zero divisor. Operations on \<open>str\<close> are left undecided.
\<close>

fun py_binop :: "binop \<Rightarrow> pyval \<Rightarrow> pyval \<Rightarrow> exn + pyval" where
  "py_binop Add (PyInt a) (PyInt b) = Inr (PyInt (a + b))"
| "py_binop Sub (PyInt a) (PyInt b) = Inr (PyInt (a - b))"
| "py_binop Mult (PyInt a) (PyInt b) = Inr (PyInt (a * b))"
| "py_binop Div (PyInt a) (PyInt b) =
     (if b = 0 then Inl (Exn ZeroDivisionError ''division by zero'')
      else Inr (PyFloat (of_int a / of_int b)))"
| "py_binop opr a b =
     (if is_str a \<or> is_str b then unmodelled
      else if \<not> is_number a \<or> \<not> is_number b then
        type_error (''unsupported operand type(s) for '' @ op_symbol opr @ '': ''
          @ squote (type_name a) @ '' and '' @ squote (type_name b))
      else (case opr of
          Add \<Rightarrow> Inr (PyFloat (num_val a + num_val b))
        | Sub \<Rightarrow> Inr (PyFloat (num_val a - num_val b))
        | Mult \<Rightarrow> Inr (PyFloat (num_val a * num_val b))
        | Div \<Rightarrow>
            (if num_val b = 0 then Inl (Exn ZeroDivisionError ''float division by zero'')
             else Inr (PyFloat (num_val a / num_val b)))))"

fun py_unop :: "unop \<Rightarrow> pyval \<Rightarrow> exn + pyval" where
  "py_unop UAdd (PyInt n) = Inr (PyInt n)"
| "py_unop USub (PyInt n) = Inr (PyInt (- n))"
| "py_unop UAdd (PyFloat x) = Inr (PyFloat x)"
| "py_unop USub (PyFloat x) = Inr (PyFloat (- x))"
| "py_unop opr v =
     type_error (''bad operand type for unary '' @ (if opr = UAdd then ''+'' else ''-'')
       @ '': '' @ squote (type_name v))"

text \<open>\<open>min\<close> keeps the first smallest argument and \<open>max\<close> the first largest.\<close>

fun select_min :: "pyval \<Rightarrow> pyval list \<Rightarrow> pyval" where
  "select_min res [] = res"
| "select_min res (v # vs) = select_min (if num_val v < num_val res then v else res) vs"

fun select_max :: "pyval \<Rightarrow> pyval list \<Rightarrow> pyval" where
  "select_max res [] = res"
| "select_max res (v # vs) = select_max (if num_val v > num_val res then v else res) vs"

fun call_builtin :: "builtin \<Rightarrow> pyval list \<Rightarrow> exn + pyval" where
  "call_builtin BAbs [PyInt n] = Inr (PyInt \<bar>n\<bar>)"
| "call_builtin BAbs [PyFloat x] = Inr (PyFloat \<bar>x\<bar>)"
| "call_builtin BAbs [v] = type_error (''bad operand type for abs(): '' @ squote (type_name v))"
| "call_builtin BAbs vs =
     type_error (''abs() takes exactly one argument ('' @ show_nat (length vs) @ '' given)'')"
| "call_builtin BMin (v # w # vs) =
     (if list_all is_number (v # w # vs) then Inr (select_min v (w # vs)) else unmodelled)"
| "call_builtin BMax (v # w # vs) =
     (if list_all is_number (v # w # vs) then Inr (select_max v (w # vs)) else unmodelled)"
| "call_builtin f [v] =
     (if is_str v then unmodelled
      else type_error (squote (type_name v) @ '' object is not iterable''))"
| "call_builtin f [] =
     type_error ((if f = BMin then ''min'' else ''max'') @ '' expected at least 1 argument, got 0'')"

fun py_call :: "pyval \<Rightarrow> pyval list \<Rightarrow> exn + pyval" where
  "py_call (PyFn f) vs = call_builtin f vs"
| "py_call v vs = type_error (squote (type_name v) @ '' object is not callable'')"

text \<open>
  Attribute access is part of the expression grammar and needs no name in scope. The
  model covers the data attributes of numbers; every other attribute (methods, and the
  classes reached through \<open>__class__\<close>) yields an object outside \<^typ>\<open>pyval\<close>.
\<close>

fun py_getattr :: "pyval \<Rightarrow> string \<Rightarrow> exn + pyval" where
  "py_getattr (PyInt n) x =
     (if x = ''real'' \<or> x = ''numerator'' then Inr (PyInt n)
      else if x = ''imag'' then Inr (PyInt 0)
      else if x = ''denominator'' then Inr (PyInt 1)
      else unmodelled)"
| "py_getattr (PyFloat r) x =
     (if x = ''real'' then Inr (PyFloat r)
      else if x = ''imag'' then Inr (PyFloat 0)
      else unmodelled)"
| "py_getattr v x = unmodelled"

text \<open>
  A name is looked up in the locals. It is in no other scope: the globals hold
  \<open>__builtins__\<close> only, bound to \<open>None\<close>, so that the lookup ends in a \<open>NameError\<close>.
  Operands are evaluated left to right, the callee before its arguments.
\<close>

fun eval_expr :: "(string \<rightharpoonup> pyval) \<Rightarrow> pyexpr \<Rightarrow> exn + pyval"
  and eval_args :: "(string \<rightharpoonup> pyval) \<Rightarrow> pyexpr list \<Rightarrow> exn + pyval list"
where
  "eval_expr env (Name x) =
     (case env x of
        Some v \<Rightarrow> Inr v
      | None \<Rightarrow> Inl (Exn NameError (''name '' @ squote x @ '' is not defined'')))"
| "eval_expr env (Num k) = Inr (PyInt (int k))"
| "eval_expr env (UnaryOp opr e) =
     (case eval_expr env e of Inl err \<Rightarrow> Inl err | Inr v \<Rightarrow> py_unop opr v)"
| "eval_expr env (BinOp l opr r) =
     (case eval_expr env l of
        Inl err \<Rightarrow> Inl err
      | Inr a \<Rightarrow> (case eval_expr env r of Inl err \<Rightarrow> Inl err | Inr b \<Rightarrow> py_binop opr a b))"
| "eval_expr env (Call f args) =
     (case eval_expr env f of
        Inl err \<Rightarrow> Inl err
      | Inr fv \<Rightarrow> (case eval_args env args of Inl err \<Rightarrow> Inl err | Inr vs \<Rightarrow> py_call fv vs))"
| "eval_expr env (Attribute e x) =
     (case eval_expr env e of Inl err \<Rightarrow> Inl err | Inr v \<Rightarrow> py_getattr v x)"
| "eval_args env [] = Inr []"
| "eval_args env (e # es) =
     (case eval_expr env e of
        Inl err \<Rightarrow> Inl err
      | Inr v \<Rightarrow> (case eval_args env es of Inl err \<Rightarrow> Inl err | Inr vs \<Rightarrow> Inr (v # vs)))"

definition py_eval :: evaluator where
  "py_eval source locals =
     (case tokenize source of
        Inl e \<Rightarrow> Inl e
      | Inr ts \<Rightarrow> (case parse ts of Inl e \<Rightarrow> Inl e | Inr e \<Rightarrow> eval_expr locals e))"

section \<open>Formula evaluation: \<open>calc\<close>\<close>

text \<open>\<open>inp.replace('.', '_').replace('&', 'and').replace('-', '_')\<close>\<close>

definition safe_name :: "string \<Rightarrow> string" where
  "safe_name inp = str_replace (str_replace (str_replace inp ''.'' ''_'') ''&'' ''and'') ''-'' ''_''"

text \<open>\<open>repr\<close> of a list of strings, for names without quotes or escapes.\<close>

definition repr_list :: "string list \<Rightarrow> string" where
  "repr_list xs = ''['' @ join '', '' (map squote xs) @ '']''"

text \<open>The first loop of \<open>calc\<close>: bind each input's value to its safe name, and raise on the
  first input that the data lacks.\<close>

fun bind_inputs ::
  "string list \<Rightarrow> string list \<Rightarrow> dataset \<Rightarrow> (string \<rightharpoonup> pyval) \<Rightarrow> exn + (string \<rightharpoonup> pyval)"
where
  "bind_inputs all [] data input_values = Inr input_values"
| "bind_inputs all (inp # rest) data input_values =
     (case data inp of
        None \<Rightarrow>
          Inl (Exn ValueError
            (''Missing values for inputs: '' @ repr_list [i \<leftarrow> all. data i = None]))
      | Some v \<Rightarrow> bind_inputs all rest data (input_values(safe_name inp \<mapsto> v)))"

text \<open>The second loop: replace each input that differs from its safe name, in the order of
  the input list, each replacement working on the result of the one before.\<close>

fun rewrite_formula :: "string list \<Rightarrow> string \<Rightarrow> string" where
  "rewrite_formula [] safe_formula = safe_formula"
| "rewrite_formula (inp # rest) safe_formula =
     rewrite_formula rest
       (if inp \<noteq> safe_name inp then str_replace safe_formula inp (safe_name inp)
        else safe_formula)"

definition safe_locals :: "(string \<rightharpoonup> pyval) \<Rightarrow> (string \<rightharpoonup> pyval)" where
  "safe_locals input_values =
     input_values(''abs'' \<mapsto> PyFn BAbs, ''max'' \<mapsto> PyFn BMax, ''min'' \<mapsto> PyFn BMin)"

text \<open>The part of \<open>calc\<close> after the shortcut: bind, rewrite, evaluate, and wrap whatever
  the evaluation raises in a \<open>ValueError\<close>.\<close>

definition calc_general :: "evaluator \<Rightarrow> metric_spec \<Rightarrow> dataset \<Rightarrow> exn + pyval" where
  "calc_general ev spec data =
     (case bind_inputs (inputs spec) (inputs spec) data Map.empty of
        Inl e \<Rightarrow> Inl e
      | Inr input_values \<Rightarrow>
          (let safe_formula = rewrite_formula (inputs spec) (formula spec) in
           case ev safe_formula (safe_locals input_values) of
             Inr result \<Rightarrow> Inr result
           | Inl e \<Rightarrow>
               Inl (Exn ValueError
                 (''Error evaluating formula '' @ squote safe_formula @ '': '' @ str_of_exn e))))"

definition is_direct_reference :: "metric_spec \<Rightarrow> bool" where
  "is_direct_reference spec = (length (inputs spec) = 1 \<and> formula spec = inputs spec ! 0)"

definition calc ::
  "evaluator \<Rightarrow> (string \<times> metric_spec) list \<Rightarrow> string \<Rightarrow> dataset \<Rightarrow> exn + pyval"
where
  "calc ev metrics_dict key data =
     (case getitem metrics_dict key of
        Inl e \<Rightarrow> Inl e
      | Inr spec \<Rightarrow>
          if is_direct_reference spec then
            (case data (inputs spec ! 0) of
               Some v \<Rightarrow> Inr v
             | None \<Rightarrow> Inl (Exn ValueError (''Missing value for input: '' @ inputs spec ! 0)))
          else calc_general ev spec data)"

section \<open>The resolver: \<open>calculate_metric\<close>\<close>

text \<open>The four dictionaries \<open>calculate_metric\<close> returns, one constructor for each set of keys.\<close>

datatype calc_result =
  Unknown_Metric (r_error: string)
| Missing_Inputs (r_error: string) (r_metric: string) (r_missing_inputs: "string list")
| Calculated (r_metric: string) (r_value: pyval) (r_formula: string) (r_description: string)
    (r_inputs_used: "string \<rightharpoonup> pyval")
| Calc_Failed (r_error: string) (r_metric: string) (r_formula: string)

fun success :: "calc_result \<Rightarrow> bool" where
  "success (Calculated m v f d u) = True"
| "success r = False"

definition resolve_alias :: "string \<Rightarrow> string" where
  "resolve_alias metric_name =
     (case map_of METRIC_ALIASES metric_name of Some canonical \<Rightarrow> canonical | None \<Rightarrow> metric_name)"

text \<open>The body of the \<open>try\<close> block up to the value: \<open>calc\<close>, then the percentage scaling.\<close>

definition scaled_result :: "evaluator \<Rightarrow> string \<Rightarrow> dataset \<Rightarrow> exn + pyval" where
  "scaled_result ev metric_name data =
     (case calc ev METRICS metric_name data of
        Inl e \<Rightarrow> Inl e
      | Inr result \<Rightarrow>
          if endswith metric_name ''_pct'' \<and> \<not> is_str result
          then py_binop Mult result (PyInt 100)
          else Inr result)"

definition calculate_metric :: "evaluator \<Rightarrow> string \<Rightarrow> dataset \<Rightarrow> exn + calc_result" where
  "calculate_metric ev name data =
     (let metric_name = resolve_alias name in
      if map_of METRICS metric_name = None then
        Inr (Unknown_Metric (''Unknown metric '' @ squote metric_name))
      else
        (case getitem METRICS metric_name of
           Inl e \<Rightarrow> Inl e
         | Inr metric_spec \<Rightarrow>
             (let missing = [inp \<leftarrow> inputs metric_spec. data inp = None] in
              if missing \<noteq> [] then
                Inr (Missing_Inputs (''Missing data for inputs: '' @ join '', '' missing)
                       metric_name missing)
              else
                (case scaled_result ev metric_name data of
                   Inr result \<Rightarrow>
                     Inr (Calculated metric_name result (formula metric_spec)
                            (desc metric_spec) (data |` set (inputs metric_spec)))
                 | Inl e \<Rightarrow>
                     Inr (Calc_Failed (''Error calculating metric: '' @ str_of_exn e)
                            metric_name (formula metric_spec))))))"

section \<open>Requirement expansion: \<open>get_metric_requirements\<close>\<close>

text \<open>
  A Python \<open>set\<close> of strings is modelled as the list of its elements without repetition,
  in the order of insertion. Python leaves the iteration order of a set open; nothing
  below depends on it.
\<close>

definition set_add :: "string list \<Rightarrow> string \<Rightarrow> string list" where
  "set_add s x = (if x \<in> set s then s else s @ [x])"

definition py_set :: "string list \<Rightarrow> string list" where
  "py_set xs = fold (\<lambda>x s. set_add s x) xs []"

definition statement_item :: "string \<Rightarrow> bool" where
  "statement_item inp = (startswith inp ''is.'' \<or> startswith inp ''bs.'' \<or> startswith inp ''cf.'')"

text \<open>The number of registry metrics not yet processed. It drops with every metric the
  closure enters, and the visited set never shrinks: this is why the expansion stops on
  any registry, cyclic or not.\<close>

definition unprocessed :: "(string \<times> metric_spec) list \<Rightarrow> string list \<Rightarrow> nat" where
  "unprocessed M processed = card (set (map fst M) - set processed)"

text \<open>
  The closure \<open>collect_inputs\<close> and its \<open>for\<close> loop. The state is the pair of the two
  sets the closure updates, \<open>all_inputs\<close> and \<open>processed_metrics\<close>; the registry is a
  parameter.
\<close>

function collect_inputs ::
    "(string \<times> metric_spec) list \<Rightarrow> string \<Rightarrow> string list \<times> string list
       \<Rightarrow> string list \<times> string list"
  and collect_loop ::
    "(string \<times> metric_spec) list \<Rightarrow> string list \<Rightarrow> string list \<times> string list
       \<Rightarrow> string list \<times> string list"
where
  "collect_inputs M metric (all_inputs, processed) =
     (case map_of M metric of
        None \<Rightarrow> (all_inputs, processed)
      | Some spec \<Rightarrow>
          if metric \<in> set processed then (all_inputs, processed)
          else collect_loop M (inputs spec) (all_inputs, set_add processed metric))"
| "collect_loop M [] st = st"
| "collect_loop M (inp # rest) (all_inputs, processed) =
     collect_loop M rest
       (if \<not> statement_item inp \<and> map_of M inp \<noteq> None
        then collect_inputs M inp (set_add all_inputs inp, processed)
        else (set_add all_inputs inp, processed))"
  by pat_completeness auto
termination
proof -
  have set_add: "set (set_add s x) = insert x (set s)" for s x
    by (auto simp: set_add_def)
  have mono: "unprocessed M p' \<le> unprocessed M p" if "set p \<subseteq> set p'" for M p p'
    using that unfolding unprocessed_def by (intro card_mono) auto
  have less: "unprocessed M (set_add processed metric) < unprocessed M processed"
    if "map_of M metric = Some spec" "metric \<notin> set processed" for M metric spec processed
  proof -
    from that(1) have "metric \<in> set (map fst M)"
      by (metis map_of_eq_None_iff option.distinct(1) set_map)
    with that(2) have "set (map fst M) - set (set_add processed metric)
        \<subset> set (map fst M) - set processed"
      by (auto simp: set_add)
    then show ?thesis
      unfolding unprocessed_def by (intro psubset_card_mono) auto
  qed
  have grows:
    "collect_inputs_collect_loop_dom (Inl (M, metric, st)) \<Longrightarrow>
       set (snd st) \<subseteq> set (snd (collect_inputs M metric st))"
    "collect_inputs_collect_loop_dom (Inr (M, inps, st)) \<Longrightarrow>
       set (snd st) \<subseteq> set (snd (collect_loop M inps st))"
    for M metric inps st
  proof (induct rule: collect_inputs_collect_loop.pinduct)
    case (1 M metric all_inputs processed)
    then show ?case
      by (auto simp: collect_inputs.psimps set_add split: option.splits)
  next
    case (2 M st)
    then show ?case by (simp add: collect_loop.psimps)
  next
    case (3 M inp rest all_inputs processed)
    then show ?case
      by (auto simp: collect_loop.psimps split: if_splits)
  qed
  show ?thesis
  proof (relation "measures [
      (\<lambda>x. case x of Inl (M, metric, st) \<Rightarrow> unprocessed M (snd st)
                    | Inr (M, inps, st) \<Rightarrow> unprocessed M (snd st)),
      (\<lambda>x. case x of Inl (M, metric, st) \<Rightarrow> 0 | Inr (M, inps, st) \<Rightarrow> Suc (length inps))]",
      goal_cases)
    case 1
    show ?case by simp
  next
    case (2 M metric all_inputs processed spec)
    then show ?case by (simp add: less)
  next
    case (3 M inp rest all_inputs processed)
    then show ?case by simp
  next
    case (4 M inp rest all_inputs processed)
    then show ?case
      using grows(1)[of M inp "(set_add all_inputs inp, processed)"]
        mono[of processed]
      by (auto simp: le_less)
  qed
qed

record requirements =
  req_metric :: string
  req_description :: string
  req_formula :: string
  direct_inputs :: "string list"
  all_required_inputs :: "string list"
  income_statement_inputs :: "string list"
  balance_sheet_inputs :: "string list"
  cash_flow_inputs :: "string list"
  derived_inputs :: "string list"

datatype requirements_result = Requirements_Error string | Requirements requirements

text \<open>The loop that starts the expansion from the direct inputs of the requested metric.\<close>

fun expand_direct_inputs ::
  "(string \<times> metric_spec) list \<Rightarrow> string list \<Rightarrow> string list \<times> string list
     \<Rightarrow> string list \<times> string list"
where
  "expand_direct_inputs M [] st = st"
| "expand_direct_inputs M (input_metric # rest) st =
     expand_direct_inputs M rest
       (if \<not> statement_item input_metric \<and> map_of M input_metric \<noteq> None
        then collect_inputs M input_metric st else st)"

text \<open>The registry and the alias table are the module's globals \<open>METRICS\<close> and
  \<open>METRIC_ALIASES\<close> in the source; here they are parameters.\<close>

definition get_metric_requirements ::
  "(string \<times> metric_spec) list \<Rightarrow> (string \<times> string) list \<Rightarrow> string \<Rightarrow> requirements_result"
where
  "get_metric_requirements M A name =
     (let metric_name = (case map_of A name of Some canonical \<Rightarrow> canonical | None \<Rightarrow> name) in
      case map_of M metric_name of
        None \<Rightarrow> Requirements_Error (''Unknown metric: '' @ metric_name)
      | Some info \<Rightarrow>
          (let all_inputs = fst (expand_direct_inputs M (inputs info) (py_set (inputs info), [])) in
           Requirements \<lparr>
             req_metric = metric_name,
             req_description = desc info,
             req_formula = formula info,
             direct_inputs = inputs info,
             all_required_inputs = all_inputs,
             income_statement_inputs = [inp \<leftarrow> all_inputs. startswith inp ''is.''],
             balance_sheet_inputs = [inp \<leftarrow> all_inputs. startswith inp ''bs.''],
             cash_flow_inputs = [inp \<leftarrow> all_inputs. startswith inp ''cf.''],
             derived_inputs = [inp \<leftarrow> all_inputs. \<not> statement_item inp]\<rparr>))"

section \<open>Identifiers of a formula text\<close>

text \<open>
  The identifiers of a formula text are its maximal runs of letters, digits and
  underscores, but for the runs of digits alone, which are numbers.
\<close>

fun words :: "string \<Rightarrow> string \<Rightarrow> string list" where
  "words cur [] = (if cur = [] then [] else [cur])"
| "words cur (c # cs) =
     (if is_name_char c then words (cur @ [c]) cs
      else (if cur = [] then [] else [cur]) @ words [] cs)"

definition identifiers :: "string \<Rightarrow> string list" where
  "identifiers s = [w \<leftarrow> words [] s. \<not> list_all is_digit w]"

definition builtin_names :: "string list" where
  "builtin_names = [''abs'', ''min'', ''max'']"

text \<open>A formula's identifiers are bound when each is the safe name of an input of the
  metric or one of the three functions in scope.\<close>

definition identifiers_bound :: "metric_spec \<Rightarrow> bool" where
  "identifiers_bound spec =
     list_all (\<lambda>i. i \<in> set (map safe_name (inputs spec)) \<or> i \<in> set builtin_names)
       (identifiers (rewrite_formula (inputs spec) (formula spec)))"

text \<open>The registry entries whose formula is a description in another notation (a lookup in
  a table, a regression, a standard deviation, a sum over quarters), not an expression
  over the inputs.\<close>

definition descriptive_metrics :: "string list" where
  "descriptive_metrics =
     [''segment_revenue'', ''geo_revenue'', ''beta_2y'', ''volatility_30d'', ''ltm_revenue'']"

text \<open>A name of the fragment: a letter or underscore, then letters, digits and
  underscores, and no keyword.\<close>

definition plain_name :: "string \<Rightarrow> bool" where
  "plain_name s =
     (case s of
        [] \<Rightarrow> False
      | c # cs \<Rightarrow> is_name_start c \<and> list_all is_name_char cs \<and> c # cs \<notin> set py_keywords)"

section \<open>Registry facts established by evaluation\<close>

lemma METRICS_gross_profit:
  "map_of METRICS ''gross_profit'' =
     Some \<lparr>inputs = [''revenue'', ''cogs''], formula = ''revenue - cogs'',
            desc = ''Revenue minus COGS''\<rparr>"
  by code_simp

lemma METRICS_net_margin_pct:
  "map_of METRICS ''net_margin_pct'' =
     Some \<lparr>inputs = [''net_income'', ''revenue''], formula = ''net_income / revenue'',
            desc = ''Net profit margin''\<rparr>"
  by code_simp

lemma METRICS_revenue:
  "map_of METRICS ''revenue'' =
     Some \<lparr>inputs = [''is.NetRevenue''], formula = ''is.NetRevenue'',
            desc = ''Total top-line sales''\<rparr>"
  by code_simp

lemma METRICS_employees:
  "map_of METRICS ''employees'' =
     Some \<lparr>inputs = [''10K.Employees''], formula = ''10K.Employees'',
            desc = ''Full-time headcount''\<rparr>"
  by code_simp

lemma METRICS_ltm_revenue:
  "map_of METRICS ''ltm_revenue'' =
     Some \<lparr>inputs = [''revenue_t'', ''revenue_t-1'', ''revenue_t-2'', ''revenue_t-3''],
            formula = ''sum(last_4_quarters)'', desc = ''Trailing-12-month revenue''\<rparr>"
  by code_simp

lemma METRICS_ebitda:
  "map_of METRICS ''ebitda'' =
     Some \<lparr>inputs = [''operating_income'', ''is.D&A''],
            formula = ''operating_income + is.D&A'',
            desc = ''EBIT + depreciation & amort.''\<rparr>"
  by code_simp

lemma resolve_alias_canonical:
  "resolve_alias ''gross_profit'' = ''gross_profit''"
  "resolve_alias ''net_margin_pct'' = ''net_margin_pct''"
  "resolve_alias ''revenue'' = ''revenue''"
  "resolve_alias ''sales'' = ''revenue''"
  by code_simp+

lemma alias_targets_canonical:
  "list_all (\<lambda>(a, c). map_of METRIC_ALIASES c = None) METRIC_ALIASES"
  by code_simp

lemma pct_not_direct:
  "list_all (\<lambda>(n, s). \<not> (is_direct_reference s \<and> endswith n ''_pct'')) METRICS"
  by (simp add: METRICS_def is_direct_reference_def endswith_def)

lemma pct_formula_unscaled:
  "list_all (\<lambda>(n, s). \<not> endswith n ''_pct'' \<or>
      (\<not> contains (formula s) ''100'' \<and> \<not> contains (formula s) ''*'')) METRICS"
  by (simp add: METRICS_def endswith_def)

lemma registry_identifiers_bound:
  "list_all (\<lambda>(n, s). n \<in> set descriptive_metrics \<or> identifiers_bound s) METRICS"
  by code_simp

lemma registry_safe_names_distinct:
  "list_all (\<lambda>(n, s). distinct (map safe_name (inputs s))) METRICS"
  by code_simp

lemma registry_rewritten:
  "list_all (\<lambda>(n, s). list_all (\<lambda>inp. \<not> contains (rewrite_formula (inputs s) (formula s)) inp)
      [inp \<leftarrow> inputs s. inp \<noteq> safe_name inp]) METRICS"
  by code_simp

lemma registry_direct_names:
  "list_all (\<lambda>(n, s). \<not> is_direct_reference s \<or> n = ''employees'' \<or>
     (plain_name (safe_name (inputs s ! 0)) \<and> safe_name (inputs s ! 0) \<notin> set builtin_names))
     METRICS"
  by code_simp

lemma registry_entry:
  assumes "list_all (\<lambda>(n, s). P n s) METRICS" and "map_of METRICS name = Some spec"
  shows "P name spec"
proof -
  from assms(2) have "(name, spec) \<in> set METRICS" by (rule map_of_SomeD)
  with assms(1) show ?thesis by (auto simp: list_all_iff)
qed

section \<open>Alias resolution\<close>

lemma resolve_alias_idem: "resolve_alias (resolve_alias name) = resolve_alias name"
proof (cases "map_of METRIC_ALIASES name")
  case None
  then show ?thesis by (simp add: resolve_alias_def)
next
  case (Some canonical)
  then have "(name, canonical) \<in> set METRIC_ALIASES" by (rule map_of_SomeD)
  with alias_targets_canonical have "map_of METRIC_ALIASES canonical = None"
    by (auto simp: list_all_iff)
  with Some show ?thesis by (simp add: resolve_alias_def)
qed

lemma calculate_metric_resolve:
  "calculate_metric ev (resolve_alias name) data = calculate_metric ev name data"
  by (simp add: calculate_metric_def resolve_alias_idem)

text \<open>
  C8. Alias resolution is the identity on a name that is no alias, and maps an alias to
  its canonical name; \<open>calculate_metric\<close> resolves before it looks the registry up, and
  no canonical name is itself an alias, so for every evaluator and every dataset the
  result for an alias is the result for its canonical name.
\<close>

theorem alias_resolution:
  "(map_of METRIC_ALIASES name = None \<longrightarrow> resolve_alias name = name)
   \<and> (\<forall>canonical. map_of METRIC_ALIASES name = Some canonical \<longrightarrow>
         resolve_alias name = canonical
       \<and> calculate_metric ev name data = calculate_metric ev canonical data)"
proof (intro conjI allI impI)
  assume "map_of METRIC_ALIASES name = None"
  then show "resolve_alias name = name" by (simp add: resolve_alias_def)
next
  fix canonical
  assume is_alias: "map_of METRIC_ALIASES name = Some canonical"
  then show r: "resolve_alias name = canonical" by (simp add: resolve_alias_def)
  from calculate_metric_resolve [of ev name data] r
  show "calculate_metric ev name data = calculate_metric ev canonical data" by simp
qed

theorem alias_resolution_witness:
  "map_of METRIC_ALIASES ''sales'' = Some ''revenue''
   \<and> calculate_metric py_eval ''sales'' [''is.NetRevenue'' \<mapsto> PyFloat (38329 / 100)]
       = calculate_metric py_eval ''revenue'' [''is.NetRevenue'' \<mapsto> PyFloat (38329 / 100)]"
proof -
  have is_alias: "map_of METRIC_ALIASES ''sales'' = Some ''revenue''" by code_simp
  with alias_resolution [of "''sales''" py_eval "[''is.NetRevenue'' \<mapsto> PyFloat (38329 / 100)]"]
  show ?thesis by blast
qed

section \<open>Missing inputs\<close>

lemma calculate_metric_missing:
  assumes "map_of METRICS (resolve_alias name) = Some spec"
    and "[inp \<leftarrow> inputs spec. data inp = None] \<noteq> []"
  shows "calculate_metric ev name data =
     Inr (Missing_Inputs
       (''Missing data for inputs: '' @ join '', '' [inp \<leftarrow> inputs spec. data inp = None])
       (resolve_alias name) [inp \<leftarrow> inputs spec. data inp = None])"
  using assms by (simp add: calculate_metric_def getitem_def Let_def)

text \<open>
  C3. For a metric of the registry (the name taken after alias resolution) and any
  dataset that lacks at least one of the metric's direct inputs, \<open>calculate_metric\<close>
  returns the missing-inputs failure. Its list is the inputs absent from the dataset, in
  the order of the input list, and nothing else; the result is the same for every
  evaluator, so no evaluation takes part in it.
\<close>

theorem calculate_metric_missing_inputs:
  assumes "map_of METRICS (resolve_alias name) = Some spec"
    and "\<exists>inp \<in> set (inputs spec). data inp = None"
  shows "\<exists>missing.
      calculate_metric ev name data =
        Inr (Missing_Inputs (''Missing data for inputs: '' @ join '', '' missing)
               (resolve_alias name) missing)
    \<and> missing = [inp \<leftarrow> inputs spec. data inp = None]
    \<and> set missing = set (inputs spec) - dom data
    \<and> calculate_metric ev' name data = calculate_metric ev name data"
proof -
  from assms(2) have ne: "[inp \<leftarrow> inputs spec. data inp = None] \<noteq> []"
    by (simp add: filter_empty_conv)
  have "set [inp \<leftarrow> inputs spec. data inp = None] = set (inputs spec) - dom data"
    by (auto simp: dom_def)
  with calculate_metric_missing [OF assms(1) ne] show ?thesis
    by simp
qed

theorem calculate_metric_missing_inputs_witness:
  "calculate_metric py_eval ''gross_profit'' [''revenue'' \<mapsto> PyInt 100] =
     Inr (Missing_Inputs ''Missing data for inputs: cogs'' ''gross_profit'' [''cogs''])"
proof -
  have spec: "map_of METRICS (resolve_alias ''gross_profit'') =
      Some \<lparr>inputs = [''revenue'', ''cogs''], formula = ''revenue - cogs'',
             desc = ''Revenue minus COGS''\<rparr>"
    by (simp add: resolve_alias_canonical METRICS_gross_profit)
  have absent: "\<exists>inp \<in> set (inputs \<lparr>inputs = [''revenue'', ''cogs''],
      formula = ''revenue - cogs'', desc = ''Revenue minus COGS''\<rparr>).
      [''revenue'' \<mapsto> PyInt 100] inp = None"
    by simp
  from calculate_metric_missing_inputs [OF spec absent, of py_eval py_eval]
  obtain missing where
    res: "calculate_metric py_eval ''gross_profit'' [''revenue'' \<mapsto> PyInt 100] =
        Inr (Missing_Inputs (''Missing data for inputs: '' @ join '', '' missing)
               (resolve_alias ''gross_profit'') missing)"
    and missing: "missing = [inp \<leftarrow> inputs \<lparr>inputs = [''revenue'', ''cogs''],
        formula = ''revenue - cogs'', desc = ''Revenue minus COGS''\<rparr>.
        [''revenue'' \<mapsto> PyInt 100] inp = None]"
    by blast
  from missing have "missing = [''cogs'']" by simp
  with res show ?thesis by (simp add: resolve_alias_canonical)
qed

text \<open>
  C10. \<open>calculate_metric\<close> never evaluates a sub-metric. When a direct input of the
  metric is itself the name of a registry metric and the dataset has no key of that
  name, the call returns the missing-inputs failure and lists that name, whatever else
  the dataset holds: nothing is assumed about the sub-metric's own inputs, so the
  failure stands also when all of them are present. The result is the same for every
  evaluator.
\<close>

theorem calculate_metric_no_sub_metric_evaluation:
  assumes "map_of METRICS (resolve_alias name) = Some spec"
    and "sub \<in> set (inputs spec)"
    and "map_of METRICS sub = Some sub_spec"
    and "data sub = None"
  shows "\<exists>missing.
      calculate_metric ev name data =
        Inr (Missing_Inputs (''Missing data for inputs: '' @ join '', '' missing)
               (resolve_alias name) missing)
    \<and> sub \<in> set missing
    \<and> calculate_metric ev' name data = calculate_metric ev name data"
proof -
  from assms(2,4) have "sub \<in> set [inp \<leftarrow> inputs spec. data inp = None]" by simp
  moreover from this have "[inp \<leftarrow> inputs spec. data inp = None] \<noteq> []"
    by (auto simp del: set_filter)
  ultimately show ?thesis
    using calculate_metric_missing [OF assms(1)] by simp
qed

theorem calculate_metric_no_sub_metric_evaluation_witness:
  "map_of METRICS ''revenue'' =
     Some \<lparr>inputs = [''is.NetRevenue''], formula = ''is.NetRevenue'',
            desc = ''Total top-line sales''\<rparr>
   \<and> calculate_metric py_eval ''gross_profit''
       [''is.NetRevenue'' \<mapsto> PyInt 100, ''is.CostOfRevenue'' \<mapsto> PyInt 40] =
     Inr (Missing_Inputs ''Missing data for inputs: revenue, cogs'' ''gross_profit''
            [''revenue'', ''cogs''])"
proof -
  let ?data = "[''is.NetRevenue'' \<mapsto> PyInt 100, ''is.CostOfRevenue'' \<mapsto> PyInt 40]"
  let ?spec = "\<lparr>inputs = [''revenue'', ''cogs''], formula = ''revenue - cogs'',
      desc = ''Revenue minus COGS''\<rparr>"
  have spec: "map_of METRICS (resolve_alias ''gross_profit'') = Some ?spec"
    by (simp add: resolve_alias_canonical METRICS_gross_profit)
  have sub: "''revenue'' \<in> set (inputs ?spec)" by simp
  have absent: "?data ''revenue'' = None" by simp
  have missing: "[inp \<leftarrow> inputs ?spec. ?data inp = None] = [''revenue'', ''cogs'']" by simp
  from calculate_metric_no_sub_metric_evaluation
    [where name = "''gross_profit''" and data = ?data and sub = "''revenue''"
       and ev = py_eval and ev' = py_eval, OF spec sub METRICS_revenue absent]
  obtain m where "calculate_metric py_eval ''gross_profit'' ?data =
      Inr (Missing_Inputs (''Missing data for inputs: '' @ join '', '' m)
             (resolve_alias ''gross_profit'') m)"
    by blast
  moreover from calculate_metric_missing [of "''gross_profit''" ?spec ?data py_eval] spec missing
  have "calculate_metric py_eval ''gross_profit'' ?data =
      Inr (Missing_Inputs (''Missing data for inputs: '' @ join '', '' [''revenue'', ''cogs''])
             (resolve_alias ''gross_profit'') [''revenue'', ''cogs''])"
    by simp
  ultimately show ?thesis
    by (simp add: METRICS_revenue resolve_alias_canonical)
qed

section \<open>Errors are results\<close>

lemma calculate_metric_evaluated:
  assumes "map_of METRICS (resolve_alias name) = Some spec"
    and "\<forall>inp \<in> set (inputs spec). data inp \<noteq> None"
  shows "calculate_metric ev name data =
     (case scaled_result ev (resolve_alias name) data of
        Inr result \<Rightarrow>
          Inr (Calculated (resolve_alias name) result (formula spec) (desc spec)
                 (data |` set (inputs spec)))
      | Inl e \<Rightarrow>
          Inr (Calc_Failed (''Error calculating metric: '' @ str_of_exn e)
                 (resolve_alias name) (formula spec)))"
proof -
  from assms(2) have "[inp \<leftarrow> inputs spec. data inp = None] = []"
    by (simp add: filter_empty_conv)
  with assms(1) show ?thesis
    by (simp add: calculate_metric_def getitem_def Let_def)
qed

lemma calculate_metric_returns: "\<exists>r. calculate_metric ev name data = Inr r"
  by (auto simp: calculate_metric_def getitem_def Let_def split: option.splits sum.splits)

lemma failure_has_description:
  assumes "calculate_metric ev name data = Inr r" and "\<not> success r"
  shows "r_error r \<noteq> []"
proof -
  have "''Unknown metric '' @ s \<noteq> []" "''Missing data for inputs: '' @ s \<noteq> []"
    "''Error calculating metric: '' @ s \<noteq> []" for s :: string
    by simp_all
  with assms show ?thesis
    by (auto simp: calculate_metric_def getitem_def Let_def
        split: option.splits sum.splits if_splits)
qed

text \<open>
  C5. \<open>calculate_metric\<close> returns a result for every evaluator, name and dataset: no
  exception leaves it. A result that is no success carries an error description. When
  the metric is in the registry, its inputs are present and \<open>calc\<close> raises (whatever the
  evaluator raised, a division by zero included, reaches \<open>calculate_metric\<close> as the
  exception of \<open>calc\<close>), the result is the failure built from the exception's message.
  In the model of Python's arithmetic, \<open>/\<close> with a zero divisor raises
  \<open>ZeroDivisionError\<close> for every pair of numbers: it yields no value.
\<close>

theorem calculate_metric_never_raises:
  "(\<exists>r. calculate_metric ev name data = Inr r \<and> (\<not> success r \<longrightarrow> r_error r \<noteq> []))
   \<and> (map_of METRICS (resolve_alias name) = Some spec
        \<and> (\<forall>inp \<in> set (inputs spec). data inp \<noteq> None)
        \<and> calc ev METRICS (resolve_alias name) data = Inl e
      \<longrightarrow> calculate_metric ev name data =
            Inr (Calc_Failed (''Error calculating metric: '' @ str_of_exn e)
                   (resolve_alias name) (formula spec))
          \<and> \<not> success (Calc_Failed (''Error calculating metric: '' @ str_of_exn e)
                   (resolve_alias name) (formula spec)))
   \<and> (is_number a \<and> is_number b \<and> num_val b = 0
      \<longrightarrow> (\<exists>msg. py_binop Div a b = Inl (Exn ZeroDivisionError msg)))"
proof (intro conjI impI)
  from calculate_metric_returns obtain r where r: "calculate_metric ev name data = Inr r"
    by blast
  with failure_has_description [OF r]
  show "\<exists>r. calculate_metric ev name data = Inr r \<and> (\<not> success r \<longrightarrow> r_error r \<noteq> [])"
    by blast
next
  assume h: "map_of METRICS (resolve_alias name) = Some spec
      \<and> (\<forall>inp \<in> set (inputs spec). data inp \<noteq> None)
      \<and> calc ev METRICS (resolve_alias name) data = Inl e"
  then have "scaled_result ev (resolve_alias name) data = Inl e"
    by (simp add: scaled_result_def)
  with h calculate_metric_evaluated [of name spec data ev]
  show "calculate_metric ev name data =
      Inr (Calc_Failed (''Error calculating metric: '' @ str_of_exn e)
             (resolve_alias name) (formula spec))"
    by simp
next
  show "\<not> success (Calc_Failed (''Error calculating metric: '' @ str_of_exn e)
      (resolve_alias name) (formula spec))"
    by simp
next
  assume "is_number a \<and> is_number b \<and> num_val b = 0"
  then show "\<exists>msg. py_binop Div a b = Inl (Exn ZeroDivisionError msg)"
    by (cases a; cases b) auto
qed

lemma calc_net_margin_by_zero:
  "calc py_eval METRICS ''net_margin_pct'' [''net_income'' \<mapsto> PyInt 10, ''revenue'' \<mapsto> PyInt 0]
     = Inl (Exn ValueError
         (''Error evaluating formula '' @ squote ''net_income / revenue''
            @ '': division by zero''))"
  by (simp add: calc_def getitem_def METRICS_net_margin_pct is_direct_reference_def
      calc_general_def safe_name_def safe_locals_def py_eval_def parse_def
      is_name_start_def is_name_char_def is_digit_def py_keywords_def)

theorem calculate_metric_never_raises_witness:
  "calculate_metric py_eval ''net_margin_pct''
       [''net_income'' \<mapsto> PyInt 10, ''revenue'' \<mapsto> PyInt 0] =
     Inr (Calc_Failed
       (''Error calculating metric: Error evaluating formula '' @ squote ''net_income / revenue''
          @ '': division by zero'')
       ''net_margin_pct'' ''net_income / revenue'')
   \<and> py_binop Div (PyInt 10) (PyInt 0) = Inl (Exn ZeroDivisionError ''division by zero'')"
proof -
  let ?data = "[''net_income'' \<mapsto> PyInt 10, ''revenue'' \<mapsto> PyInt 0]"
  let ?spec = "\<lparr>inputs = [''net_income'', ''revenue''], formula = ''net_income / revenue'',
      desc = ''Net profit margin''\<rparr>"
  let ?e = "Exn ValueError (''Error evaluating formula '' @ squote ''net_income / revenue''
      @ '': division by zero'')"
  have spec: "map_of METRICS (resolve_alias ''net_margin_pct'') = Some ?spec"
    by (simp add: resolve_alias_canonical METRICS_net_margin_pct)
  have present: "\<forall>inp \<in> set (inputs ?spec). ?data inp \<noteq> None" by simp
  have raised: "calc py_eval METRICS (resolve_alias ''net_margin_pct'') ?data = Inl ?e"
    by (simp only: resolve_alias_canonical calc_net_margin_by_zero)
  from calculate_metric_never_raises
    [where name = "''net_margin_pct''" and spec = ?spec and data = ?data and ev = py_eval
       and e = ?e and a = "PyInt 10" and b = "PyInt 0"]
    spec present raised
  have "calculate_metric py_eval ''net_margin_pct'' ?data =
      Inr (Calc_Failed (''Error calculating metric: '' @ str_of_exn ?e)
             (resolve_alias ''net_margin_pct'') (formula ?spec))"
    by blast
  then show ?thesis by (simp add: resolve_alias_canonical)
qed

section \<open>Percentage scaling\<close>

text \<open>
  C4. For a registry metric whose canonical name ends in \<open>_pct\<close> and a dataset that
  holds its inputs: when \<open>calc\<close> returns a number, \<open>calculate_metric\<close> succeeds with that
  number times 100, the product being taken after \<open>calc\<close> has returned. The formula text
  of such a metric contains neither \<open>100\<close> nor a multiplication sign.
\<close>

theorem pct_metric_scaled:
  assumes "map_of METRICS (resolve_alias name) = Some spec"
    and "endswith (resolve_alias name) ''_pct''"
    and "\<forall>inp \<in> set (inputs spec). data inp \<noteq> None"
    and "calc ev METRICS (resolve_alias name) data = Inr raw"
    and "is_number raw"
  shows "\<exists>v. calculate_metric ev name data =
        Inr (Calculated (resolve_alias name) v (formula spec) (desc spec)
               (data |` set (inputs spec)))
    \<and> py_binop Mult raw (PyInt 100) = Inr v
    \<and> is_number v \<and> num_val v = num_val raw * 100
    \<and> \<not> contains (formula spec) ''100'' \<and> \<not> contains (formula spec) ''*''"
proof -
  from assms(5) obtain v where v: "py_binop Mult raw (PyInt 100) = Inr v"
    and nv: "is_number v" "num_val v = num_val raw * 100"
    by (cases raw) auto
  from assms(5) have "\<not> is_str raw" by (cases raw) auto
  with assms(2,4) v have "scaled_result ev (resolve_alias name) data = Inr v"
    by (simp add: scaled_result_def)
  with calculate_metric_evaluated [OF assms(1,3), of ev]
  have "calculate_metric ev name data =
      Inr (Calculated (resolve_alias name) v (formula spec) (desc spec)
             (data |` set (inputs spec)))"
    by simp
  moreover from registry_entry [OF pct_formula_unscaled assms(1)] assms(2)
  have "\<not> contains (formula spec) ''100'' \<and> \<not> contains (formula spec) ''*''"
    by simp
  ultimately show ?thesis using v nv by blast
qed

lemma calc_net_margin:
  "calc py_eval METRICS ''net_margin_pct'' [''net_income'' \<mapsto> PyInt 10, ''revenue'' \<mapsto> PyInt 50]
     = Inr (PyFloat (1 / 5))"
  by (simp add: calc_def getitem_def METRICS_net_margin_pct is_direct_reference_def
      calc_general_def safe_name_def safe_locals_def py_eval_def parse_def
      is_name_start_def is_name_char_def is_digit_def py_keywords_def)

theorem pct_metric_scaled_witness:
  "calculate_metric py_eval ''net_margin_pct''
       [''net_income'' \<mapsto> PyInt 10, ''revenue'' \<mapsto> PyInt 50] =
     Inr (Calculated ''net_margin_pct'' (PyFloat 20) ''net_income / revenue''
            ''Net profit margin''
            ([''net_income'' \<mapsto> PyInt 10, ''revenue'' \<mapsto> PyInt 50]
               |` {''net_income'', ''revenue''}))"
proof -
  let ?data = "[''net_income'' \<mapsto> PyInt 10, ''revenue'' \<mapsto> PyInt 50]"
  let ?spec = "\<lparr>inputs = [''net_income'', ''revenue''], formula = ''net_income / revenue'',
      desc = ''Net profit margin''\<rparr>"
  have spec: "map_of METRICS (resolve_alias ''net_margin_pct'') = Some ?spec"
    by (simp add: resolve_alias_canonical METRICS_net_margin_pct)
  have pct: "endswith (resolve_alias ''net_margin_pct'') ''_pct''"
    by (simp add: resolve_alias_canonical endswith_def)
  have present: "\<forall>inp \<in> set (inputs ?spec). ?data inp \<noteq> None" by simp
  have raw: "calc py_eval METRICS (resolve_alias ''net_margin_pct'') ?data = Inr (PyFloat (1 / 5))"
    by (simp only: resolve_alias_canonical calc_net_margin)
  have num: "is_number (PyFloat (1 / 5))" by simp
  from pct_metric_scaled [OF spec pct present raw num]
  obtain v where "calculate_metric py_eval ''net_margin_pct'' ?data =
      Inr (Calculated (resolve_alias ''net_margin_pct'') v (formula ?spec) (desc ?spec)
             (?data |` set (inputs ?spec)))"
    and "py_binop Mult (PyFloat (1 / 5)) (PyInt 100) = Inr v"
    by blast
  then show ?thesis by (simp add: resolve_alias_canonical)
qed

section \<open>Requirement expansion\<close>

lemma distinct_set_add: "distinct s \<Longrightarrow> distinct (set_add s x)"
  by (simp add: set_add_def)

lemma set_set_add: "set (set_add s x) = insert x (set s)"
  by (auto simp: set_add_def)

lemma py_set_props: "distinct (py_set xs) \<and> set (py_set xs) = set xs"
proof -
  have "distinct acc \<Longrightarrow>
      distinct (fold (\<lambda>x s. set_add s x) xs acc)
      \<and> set (fold (\<lambda>x s. set_add s x) xs acc) = set acc \<union> set xs" for acc
    by (induction xs arbitrary: acc) (auto simp: distinct_set_add set_set_add)
  from this [of "[]"] show ?thesis by (simp add: py_set_def)
qed

text \<open>The closure only adds to \<open>all_inputs\<close>, and keeps it free of repetitions.\<close>

declare collect_inputs.simps [simp del]

lemma collect_keeps:
  "distinct (fst st) \<Longrightarrow>
     distinct (fst (collect_inputs M metric st)) \<and> set (fst st) \<subseteq> set (fst (collect_inputs M metric st))"
  "distinct (fst st) \<Longrightarrow>
     distinct (fst (collect_loop M inps st)) \<and> set (fst st) \<subseteq> set (fst (collect_loop M inps st))"
proof (induction M metric st and M inps st rule: collect_inputs_collect_loop.induct)
  case (1 M metric all_inputs processed)
  then show ?case by (auto simp: collect_inputs.simps split: option.splits)
next
  case (2 M st)
  then show ?case by simp
next
  case (3 M inp rest all_inputs processed)
  define st' where "st' =
    (if \<not> statement_item inp \<and> map_of M inp \<noteq> None
     then collect_inputs M inp (set_add all_inputs inp, processed)
     else (set_add all_inputs inp, processed))"
  from "3.prems" have d: "distinct (fst (set_add all_inputs inp, processed))"
    by (simp add: distinct_set_add)
  have inner: "distinct (fst st') \<and> set (set_add all_inputs inp) \<subseteq> set (fst st')"
  proof (cases "\<not> statement_item inp \<and> map_of M inp \<noteq> None")
    case True
    from "3.IH"(1) [OF True d] True show ?thesis by (simp add: st'_def)
  next
    case False
    with d show ?thesis by (auto simp: st'_def)
  qed
  from "3.IH"(2) inner
  have "distinct (fst (collect_loop M rest st')) \<and> set (fst st') \<subseteq> set (fst (collect_loop M rest st'))"
    by (simp add: st'_def)
  moreover have "collect_loop M (inp # rest) (all_inputs, processed) = collect_loop M rest st'"
    by (simp add: st'_def)
  ultimately show ?case using inner by (auto simp: set_set_add)
qed

lemma expand_keeps:
  "distinct (fst st) \<Longrightarrow>
     distinct (fst (expand_direct_inputs M inps st))
     \<and> set (fst st) \<subseteq> set (fst (expand_direct_inputs M inps st))"
proof (induction inps arbitrary: st)
  case Nil
  then show ?case by simp
next
  case (Cons input_metric rest)
  show ?case
  proof (cases "\<not> statement_item input_metric \<and> map_of M input_metric \<noteq> None")
    case True
    from collect_keeps(1) [OF Cons.prems, of M input_metric]
    have c: "distinct (fst (collect_inputs M input_metric st))"
      "set (fst st) \<subseteq> set (fst (collect_inputs M input_metric st))"
      by simp_all
    from Cons.IH [OF c(1)] c(2) True show ?thesis by auto
  next
    case False
    with Cons.IH [OF Cons.prems] show ?thesis by auto
  qed
qed

text \<open>
  C9. \<open>get_metric_requirements\<close> is a total function of the registry, the alias table and
  the name: the recursion of \<open>collect_inputs\<close> is accepted with the number of metrics not
  yet in the visited set as its measure, for every registry, cyclic ones included. For a
  name in the registry the result is the requirement record, never the error, also when
  the metric depends on itself; the closure it returns has no element twice and contains
  the direct inputs.
\<close>

theorem get_metric_requirements_terminates:
  assumes "map_of M (case map_of A name of Some canonical \<Rightarrow> canonical | None \<Rightarrow> name) = Some info"
  shows "\<exists>r. get_metric_requirements M A name = Requirements r
    \<and> distinct (all_required_inputs r)
    \<and> set (inputs info) \<subseteq> set (all_required_inputs r)
    \<and> direct_inputs r = inputs info"
proof -
  from py_set_props [of "inputs info"]
  have "distinct (fst (py_set (inputs info), []::string list))" by simp
  from expand_keeps [OF this, of M "inputs info"] py_set_props [of "inputs info"]
  have "distinct (fst (expand_direct_inputs M (inputs info) (py_set (inputs info), [])))
    \<and> set (inputs info) \<subseteq> set (fst (expand_direct_inputs M (inputs info) (py_set (inputs info), [])))"
    by simp
  with assms show ?thesis
    by (simp add: get_metric_requirements_def Let_def)
qed

theorem get_metric_requirements_terminates_witness:
  "get_metric_requirements
     [(''a'', \<lparr>inputs = [''b'', ''a''], formula = ''b + a'', desc = ''self and cycle''\<rparr>),
      (''b'', \<lparr>inputs = [''a'', ''cf.X'', ''a''], formula = ''a - cf.X'', desc = ''back edge''\<rparr>)]
     [(''alias_of_a'', ''a'')] ''alias_of_a''
   = Requirements \<lparr>req_metric = ''a'', req_description = ''self and cycle'',
       req_formula = ''b + a'', direct_inputs = [''b'', ''a''],
       all_required_inputs = [''b'', ''a'', ''cf.X''],
       income_statement_inputs = [], balance_sheet_inputs = [],
       cash_flow_inputs = [''cf.X''], derived_inputs = [''b'', ''a'']\<rparr>
   \<and> distinct [''b'', ''a'', ''cf.X'']
   \<and> get_metric_requirements METRICS METRIC_ALIASES ''fcf''
     = Requirements \<lparr>req_metric = ''free_cash_flow'', req_description = ''CFO minus capex'',
         req_formula = ''cfo - capex'', direct_inputs = [''cfo'', ''capex''],
         all_required_inputs = [''cfo'', ''capex'', ''cf.CashFromOperations'', ''cf.CapEx''],
         income_statement_inputs = [], balance_sheet_inputs = [],
         cash_flow_inputs = [''cf.CashFromOperations'', ''cf.CapEx''],
         derived_inputs = [''cfo'', ''capex'']\<rparr>"
proof -
  let ?M = "[(''a'', \<lparr>inputs = [''b'', ''a''], formula = ''b + a'', desc = ''self and cycle''\<rparr>),
      (''b'', \<lparr>inputs = [''a'', ''cf.X'', ''a''], formula = ''a - cf.X'', desc = ''back edge''\<rparr>)]"
  let ?A = "[(''alias_of_a'', ''a'')]"
  have known: "map_of ?M (case map_of ?A ''alias_of_a'' of Some canonical \<Rightarrow> canonical
      | None \<Rightarrow> ''alias_of_a'')
    = Some \<lparr>inputs = [''b'', ''a''], formula = ''b + a'', desc = ''self and cycle''\<rparr>"
    by simp
  have run: "get_metric_requirements ?M ?A ''alias_of_a''
    = Requirements \<lparr>req_metric = ''a'', req_description = ''self and cycle'',
       req_formula = ''b + a'', direct_inputs = [''b'', ''a''],
       all_required_inputs = [''b'', ''a'', ''cf.X''],
       income_statement_inputs = [], balance_sheet_inputs = [],
       cash_flow_inputs = [''cf.X''], derived_inputs = [''b'', ''a'']\<rparr>"
    by (simp add: get_metric_requirements_def Let_def py_set_def set_add_def
        statement_item_def startswith_def collect_inputs.simps)
  have fcf: "get_metric_requirements METRICS METRIC_ALIASES ''fcf''
    = Requirements \<lparr>req_metric = ''free_cash_flow'', req_description = ''CFO minus capex'',
        req_formula = ''cfo - capex'', direct_inputs = [''cfo'', ''capex''],
        all_required_inputs = [''cfo'', ''capex'', ''cf.CashFromOperations'', ''cf.CapEx''],
        income_statement_inputs = [], balance_sheet_inputs = [],
        cash_flow_inputs = [''cf.CashFromOperations'', ''cf.CapEx''],
        derived_inputs = [''cfo'', ''capex'']\<rparr>"
    by code_simp
  from get_metric_requirements_terminates [OF known] run fcf
  show ?thesis by auto
qed

section \<open>Name sanitisation\<close>

text \<open>
  C6, as stated, fails: the sanitisation is not collision-free on arbitrary identifiers.
  The distinct identifiers \<open>a.b\<close> and \<open>a-b\<close> get the same safe name \<open>a_b\<close>. Nor is
  every occurrence of an input rewritten to its safe name for arbitrary inputs: with the
  inputs \<open>a.b\<close> and \<open>a.b-c\<close>, the replacement for the first turns the formula
  \<open>a.b-c\<close> into \<open>a_b-c\<close>, which the replacement for the second no longer matches.
\<close>

theorem safe_name_collision:
  "''a.b'' \<noteq> ''a-b'' \<and> safe_name ''a.b'' = ''a_b'' \<and> safe_name ''a-b'' = ''a_b''
   \<and> safe_name ''a.b-c'' = ''a_b_c''
   \<and> rewrite_formula [''a.b'', ''a.b-c''] ''a.b-c'' = ''a_b-c''"
  by (simp add: safe_name_def)

text \<open>
  C6, amended. The safe name is a function of the identifier alone. Within every metric
  of the registry, distinct inputs get distinct safe names, and after the rewrite no
  input that differs from its safe name occurs in the formula text any more.
\<close>

theorem safe_name_registry:
  assumes "map_of METRICS name = Some spec"
  shows "inj_on safe_name (set (inputs spec))
    \<and> (\<forall>inp \<in> set (inputs spec). inp \<noteq> safe_name inp \<longrightarrow>
          \<not> contains (rewrite_formula (inputs spec) (formula spec)) inp)"
proof
  from registry_entry [OF registry_safe_names_distinct assms]
  have "distinct (map safe_name (inputs spec))" .
  then show "inj_on safe_name (set (inputs spec))" by (simp add: distinct_map)
next
  from registry_entry [OF registry_rewritten assms]
  have "list_all (\<lambda>inp. \<not> contains (rewrite_formula (inputs spec) (formula spec)) inp)
      [inp \<leftarrow> inputs spec. inp \<noteq> safe_name inp]" .
  then show "\<forall>inp \<in> set (inputs spec). inp \<noteq> safe_name inp \<longrightarrow>
      \<not> contains (rewrite_formula (inputs spec) (formula spec)) inp"
    by (simp add: list_all_iff)
qed

theorem safe_name_registry_witness:
  "safe_name ''operating_income'' \<noteq> safe_name ''is.D&A''
   \<and> ''is.D&A'' \<noteq> safe_name ''is.D&A''
   \<and> \<not> contains (rewrite_formula [''operating_income'', ''is.D&A''] ''operating_income + is.D&A'')
         ''is.D&A''
   \<and> rewrite_formula [''operating_income'', ''is.D&A''] ''operating_income + is.D&A''
       = ''operating_income + is_DandA''"
proof -
  let ?spec = "\<lparr>inputs = [''operating_income'', ''is.D&A''],
      formula = ''operating_income + is.D&A'', desc = ''EBIT + depreciation & amort.''\<rparr>"
  from safe_name_registry [OF METRICS_ebitda]
  have inj: "inj_on safe_name (set (inputs ?spec))"
    and rew: "\<forall>inp \<in> set (inputs ?spec). inp \<noteq> safe_name inp \<longrightarrow>
      \<not> contains (rewrite_formula (inputs ?spec) (formula ?spec)) inp"
    by blast+
  have changed: "''is.D&A'' \<noteq> safe_name ''is.D&A''" by (simp add: safe_name_def)
  from inj have "safe_name ''operating_income'' \<noteq> safe_name ''is.D&A''"
    by (auto dest: inj_onD)
  moreover from rew changed
  have "\<not> contains (rewrite_formula [''operating_income'', ''is.D&A''] ''operating_income + is.D&A'')
      ''is.D&A''"
    by simp
  moreover have "rewrite_formula [''operating_income'', ''is.D&A''] ''operating_income + is.D&A''
      = ''operating_income + is_DandA''"
    by (simp add: safe_name_def)
  ultimately show ?thesis using changed by blast
qed

section \<open>Identifiers of the registry formulas\<close>

text \<open>
  C2, as stated, fails on the registry: the formula of \<open>ltm_revenue\<close> is
  \<open>sum(last_4_quarters)\<close>, and \<open>sum\<close> is neither the safe name of one of its inputs nor
  one of \<open>abs\<close>, \<open>min\<close>, \<open>max\<close>.
\<close>

theorem formula_identifier_unbound:
  "map_of METRICS ''ltm_revenue'' =
     Some \<lparr>inputs = [''revenue_t'', ''revenue_t-1'', ''revenue_t-2'', ''revenue_t-3''],
            formula = ''sum(last_4_quarters)'', desc = ''Trailing-12-month revenue''\<rparr>
   \<and> identifiers (rewrite_formula [''revenue_t'', ''revenue_t-1'', ''revenue_t-2'', ''revenue_t-3'']
        ''sum(last_4_quarters)'') = [''sum'', ''last_4_quarters'']
   \<and> map safe_name [''revenue_t'', ''revenue_t-1'', ''revenue_t-2'', ''revenue_t-3'']
       = [''revenue_t'', ''revenue_t_1'', ''revenue_t_2'', ''revenue_t_3'']
   \<and> ''sum'' \<notin> set [''revenue_t'', ''revenue_t_1'', ''revenue_t_2'', ''revenue_t_3'']
   \<and> ''sum'' \<notin> set builtin_names"
  by (simp add: METRICS_ltm_revenue identifiers_def safe_name_def builtin_names_def
      is_name_char_def is_name_start_def is_digit_def)

text \<open>
  C2, amended. For every entry of the registry other than the five descriptive ones
  (\<open>segment_revenue\<close>, \<open>geo_revenue\<close>, \<open>beta_2y\<close>, \<open>volatility_30d\<close>, \<open>ltm_revenue\<close>),
  every identifier of the formula, after the rewrite, is the safe name of one of the
  entry's inputs or one of \<open>abs\<close>, \<open>min\<close>, \<open>max\<close>.
\<close>

theorem registry_formula_identifiers:
  assumes "map_of METRICS name = Some spec" and "name \<notin> set descriptive_metrics"
  shows "\<forall>i \<in> set (identifiers (rewrite_formula (inputs spec) (formula spec))).
      i \<in> set (map safe_name (inputs spec)) \<or> i \<in> set builtin_names"
proof -
  from registry_entry [OF registry_identifiers_bound assms(1)] assms(2)
  have "identifiers_bound spec" by simp
  then show ?thesis by (simp add: identifiers_bound_def list_all_iff)
qed

theorem registry_formula_identifiers_witness:
  "''ebitda'' \<notin> set descriptive_metrics
   \<and> identifiers (rewrite_formula [''operating_income'', ''is.D&A''] ''operating_income + is.D&A'')
       = [''operating_income'', ''is_DandA'']
   \<and> (''is_DandA'' \<in> set (map safe_name [''operating_income'', ''is.D&A''])
        \<or> ''is_DandA'' \<in> set builtin_names)"
proof -
  let ?spec = "\<lparr>inputs = [''operating_income'', ''is.D&A''],
      formula = ''operating_income + is.D&A'', desc = ''EBIT + depreciation & amort.''\<rparr>"
  have no: "''ebitda'' \<notin> set descriptive_metrics" by (simp add: descriptive_metrics_def)
  have ids: "identifiers (rewrite_formula [''operating_income'', ''is.D&A'']
      ''operating_income + is.D&A'') = [''operating_income'', ''is_DandA'']"
    by (simp add: identifiers_def safe_name_def is_name_char_def is_name_start_def is_digit_def)
  from registry_formula_identifiers [OF METRICS_ebitda no]
  have "\<forall>i \<in> set (identifiers (rewrite_formula (inputs ?spec) (formula ?spec))).
      i \<in> set (map safe_name (inputs ?spec)) \<or> i \<in> set builtin_names" .
  with ids have "''is_DandA'' \<in> set (map safe_name [''operating_income'', ''is.D&A''])
      \<or> ''is_DandA'' \<in> set builtin_names"
    by simp
  with no ids show ?thesis by blast
qed

section \<open>Direct references\<close>

lemma str_replace_self: "old \<noteq> [] \<Longrightarrow> str_replace old old new = new"
  by (cases old) simp_all

lemma name_start_not_blank:
  "is_name_start c \<Longrightarrow> c \<noteq> CHR '' '' \<and> c \<noteq> CHR 0x09"
  by (auto simp: is_name_start_def)

lemma tokenize_plain_name:
  assumes "plain_name s"
  shows "tokenize s = Inr [TName s]"
proof -
  from assms obtain c cs where s: "s = c # cs" and c: "is_name_start c"
    and cs: "\<forall>x \<in> set cs. is_name_char x" and kw: "c # cs \<notin> set py_keywords"
    by (auto simp: plain_name_def list_all_iff split: list.splits)
  from cs have tw: "takeWhile is_name_char cs = cs" and dw: "dropWhile is_name_char cs = []"
    by simp_all
  from name_start_not_blank [OF c] c kw show ?thesis
    unfolding s by (simp add: tw dw)
qed

lemma parse_single_name: "parse [TName s] = Inr (Name s)"
  by (simp add: parse_def)

lemma py_eval_plain_name:
  "plain_name s \<Longrightarrow> env s = Some v \<Longrightarrow> py_eval s env = Inr v"
  by (simp add: py_eval_def tokenize_plain_name parse_single_name)

text \<open>The general path of \<open>calc\<close> on a direct reference whose safe name is a name of the
  language: bind, rewrite and evaluate give the input's value.\<close>

lemma calc_general_direct:
  assumes dr: "is_direct_reference spec"
    and pn: "plain_name (safe_name (inputs spec ! 0))"
    and nb: "safe_name (inputs spec ! 0) \<notin> set builtin_names"
    and v: "data (inputs spec ! 0) = Some v"
  shows "calc_general py_eval spec data = Inr v"
proof -
  from dr obtain inp where inps: "inputs spec = [inp]" and f: "formula spec = inp"
    by (cases "inputs spec") (auto simp: is_direct_reference_def)
  from pn inps have "safe_name inp \<noteq> []" by (auto simp: plain_name_def)
  then have ne: "inp \<noteq> []" by (auto simp: safe_name_def)
  have rw: "rewrite_formula [inp] inp = safe_name inp"
    by (cases "inp = safe_name inp") (simp_all add: str_replace_self ne)
  from v inps have bind: "bind_inputs [inp] [inp] data Map.empty = Inr [safe_name inp \<mapsto> v]"
    by simp
  from nb inps have "safe_locals [safe_name inp \<mapsto> v] (safe_name inp) = Some v"
    by (auto simp: safe_locals_def builtin_names_def)
  with pn inps have "py_eval (safe_name inp) (safe_locals [safe_name inp \<mapsto> v]) = Inr v"
    by (simp add: py_eval_plain_name)
  then show ?thesis
    unfolding calc_general_def inps f bind rw Let_def by simp
qed

text \<open>
  C7, as stated, fails in its last part. \<open>employees\<close> is a direct reference to
  \<open>10K.Employees\<close>, whose safe name \<open>10K_Employees\<close> starts with a digit and is no name
  of the language: the shortcut returns the value, the general path raises.
\<close>

theorem employees_general_path_differs:
  "map_of METRICS ''employees'' =
     Some \<lparr>inputs = [''10K.Employees''], formula = ''10K.Employees'',
            desc = ''Full-time headcount''\<rparr>
   \<and> is_direct_reference \<lparr>inputs = [''10K.Employees''], formula = ''10K.Employees'',
            desc = ''Full-time headcount''\<rparr>
   \<and> calc py_eval METRICS ''employees'' [''10K.Employees'' \<mapsto> PyInt 5] = Inr (PyInt 5)
   \<and> calc_general py_eval
        \<lparr>inputs = [''10K.Employees''], formula = ''10K.Employees'',
           desc = ''Full-time headcount''\<rparr>
        [''10K.Employees'' \<mapsto> PyInt 5]
       = Inl (Exn ValueError (''Error evaluating formula '' @ squote ''10K_Employees''
           @ '': invalid decimal literal (<string>, line 1)''))"
  by (simp add: METRICS_employees calc_def getitem_def is_direct_reference_def
      calc_general_def safe_name_def safe_locals_def py_eval_def syntax_error_def
      is_name_start_def is_name_char_def is_digit_def literal_suffix_chars_def)

text \<open>
  C7, amended. For a registry metric whose formula is its single input and a dataset that
  holds that input, \<open>calculate_metric\<close> succeeds with exactly the dataset's value, whatever
  the value and the evaluator. For every such metric but \<open>employees\<close>, the general path
  of \<open>calc\<close> (bind, rewrite, evaluate) gives the same value.
\<close>

theorem direct_reference_passthrough:
  assumes "map_of METRICS (resolve_alias name) = Some spec"
    and "is_direct_reference spec"
    and "data (inputs spec ! 0) = Some v"
  shows "calculate_metric ev name data =
      Inr (Calculated (resolve_alias name) v (formula spec) (desc spec)
             (data |` set (inputs spec)))
    \<and> (resolve_alias name \<noteq> ''employees'' \<longrightarrow> calc_general py_eval spec data = Inr v)"
proof
  from assms(2) obtain inp where inps: "inputs spec = [inp]"
    by (cases "inputs spec") (auto simp: is_direct_reference_def)
  with assms(3) have present: "\<forall>inp \<in> set (inputs spec). data inp \<noteq> None" by simp
  from assms have "calc ev METRICS (resolve_alias name) data = Inr v"
    by (simp add: calc_def getitem_def)
  moreover from registry_entry [OF pct_not_direct assms(1)] assms(2)
  have "\<not> endswith (resolve_alias name) ''_pct''" by simp
  ultimately have "scaled_result ev (resolve_alias name) data = Inr v"
    by (simp add: scaled_result_def)
  with calculate_metric_evaluated [OF assms(1) present, of ev]
  show "calculate_metric ev name data =
      Inr (Calculated (resolve_alias name) v (formula spec) (desc spec)
             (data |` set (inputs spec)))"
    by simp
next
  show "resolve_alias name \<noteq> ''employees'' \<longrightarrow> calc_general py_eval spec data = Inr v"
  proof
    assume "resolve_alias name \<noteq> ''employees''"
    with registry_entry [OF registry_direct_names assms(1)] assms(2)
    have "plain_name (safe_name (inputs spec ! 0))"
      and "safe_name (inputs spec ! 0) \<notin> set builtin_names"
      by simp_all
    with assms(2,3) show "calc_general py_eval spec data = Inr v"
      by (intro calc_general_direct)
  qed
qed

theorem direct_reference_passthrough_witness:
  "calculate_metric py_eval ''revenue'' [''is.NetRevenue'' \<mapsto> PyInt (- 5)] =
     Inr (Calculated ''revenue'' (PyInt (- 5)) ''is.NetRevenue'' ''Total top-line sales''
            ([''is.NetRevenue'' \<mapsto> PyInt (- 5)] |` {''is.NetRevenue''}))
   \<and> calc_general py_eval
        \<lparr>inputs = [''is.NetRevenue''], formula = ''is.NetRevenue'',
           desc = ''Total top-line sales''\<rparr>
        [''is.NetRevenue'' \<mapsto> PyInt (- 5)] = Inr (PyInt (- 5))"
proof -
  let ?data = "[''is.NetRevenue'' \<mapsto> PyInt (- 5)]"
  let ?spec = "\<lparr>inputs = [''is.NetRevenue''], formula = ''is.NetRevenue'',
      desc = ''Total top-line sales''\<rparr>"
  have spec: "map_of METRICS (resolve_alias ''revenue'') = Some ?spec"
    by (simp add: resolve_alias_canonical METRICS_revenue)
  have dr: "is_direct_reference ?spec" by (simp add: is_direct_reference_def)
  have v: "?data (inputs ?spec ! 0) = Some (PyInt (- 5))" by simp
  have other: "resolve_alias ''revenue'' \<noteq> ''employees''"
    by (simp add: resolve_alias_canonical)
  from direct_reference_passthrough
    [where name = "''revenue''" and data = ?data and ev = py_eval, OF spec dr v] other
  show ?thesis by (simp add: resolve_alias_canonical)
qed

section \<open>What the evaluation scope keeps out\<close>

text \<open>
  C1. The claim excludes attribute access from what a formula can reach. \<open>calc\<close> with a
  registry whose formula is \<open>(1).real\<close> and no input at all hands that text to the
  evaluator unchanged; the text parses as an attribute access on a literal, and the
  evaluation returns 1. No name of the scope is involved, so removing the builtins from
  the scope does not keep attribute access out.
\<close>

theorem calc_evaluates_attribute_access:
  "tokenize ''(1).real'' = Inr [TLParen, TInt 1, TRParen, TDot, TName ''real'']
   \<and> parse [TLParen, TInt 1, TRParen, TDot, TName ''real''] = Inr (Attribute (Num 1) ''real'')
   \<and> rewrite_formula [] ''(1).real'' = ''(1).real''
   \<and> calc py_eval [(''m'', \<lparr>inputs = [], formula = ''(1).real'', desc = ''''\<rparr>)] ''m'' Map.empty
       = Inr (PyInt 1)"
  by (simp add: calc_def getitem_def is_direct_reference_def calc_general_def
      safe_locals_def py_eval_def parse_def is_name_start_def is_name_char_def is_digit_def
      py_keywords_def literal_suffix_chars_def)

end
